theory Spec2Isabelle
  imports Main
begin

section \<open>MusicBotik: the voice-chat music manager (src/core/music.py)\<close>

text \<open>
  The development embeds the class \<open>MusicManager\<close> of \<open>src/core/music.py\<close>. Every method
  becomes a function that takes the manager's state and returns its result together with the
  state afterwards. The state holds what the methods read and write:
  \<^item> the dictionary \<open>group_calls\<close> from chat ids to group-call objects; an object is named by
    a handle, and the attribute the code assigns (\<open>input_filename\<close>) lives in a store from
    handles to objects, so that "the same object" is "the same handle";
  \<^item> the files the code creates, tests and removes, as a map from path strings to contents;
  \<^item> the sequence of calls made to the external libraries (pytgcalls, yt-dlp, ffmpeg),
    in the order they are made.
  What an external call does (whether it raises, which files it writes) is not fixed by the
  source; it is a parameter \<open>env\<close> of every function, and may depend on the calls made so far.
\<close>

subsection \<open>Data\<close>

type_synonym chat_id = int
type_synonym path = string
type_synonym blob = string
type_synonym handle = nat

text \<open>The keyword arguments of \<open>ffmpeg.input(input_file).output(output_file, ...)\<close>.\<close>

record ffmpeg_args =
  input_file :: path
  output_file :: path
  format :: string
  acodec :: string
  ac :: nat
  ar :: string
  overwrite_output :: bool

text \<open>The calls the manager makes to its external collaborators.\<close>

datatype adapter_call =
    Get_file_group_call
  | Start handle chat_id
  | Stop handle
  | Stop_playout handle
  | Pause_playout handle
  | Resume_playout handle
  | Restart_playout handle
  | Set_is_mute handle bool
  | Set_input_filename handle path
  | Extract_info string
  | Ffmpeg_run ffmpeg_args

text \<open>
  What \<open>YoutubeDL.extract_info\<close> does: it returns or raises, and in both cases it may have
  written files, given by name, into the directory of its output template.
\<close>

datatype ytdl_result = Ytdl_ok "(string \<times> blob) list" | Ytdl_raise "(string \<times> blob) list"

text \<open>
  What running ffmpeg does: it writes the converted stream, or it raises, leaving nothing or a
  partial file at the output path.
\<close>

datatype ffmpeg_result = Ffmpeg_done blob | Ffmpeg_fail "blob option"

text \<open>
  The behaviour of the external libraries. Each function receives the calls made so far; yt-dlp
  and ffmpeg also receive the files present when they are started.
\<close>

record env =
  PYTGCALLS_AVAILABLE :: bool
  raises :: "adapter_call list \<Rightarrow> adapter_call \<Rightarrow> bool"
  extract_info :: "adapter_call list \<Rightarrow> (path \<rightharpoonup> blob) \<Rightarrow> string \<Rightarrow> ytdl_result"
  ffmpeg :: "adapter_call list \<Rightarrow> (path \<rightharpoonup> blob) \<Rightarrow> ffmpeg_args \<Rightarrow> ffmpeg_result"

datatype error =
    Pytgcalls_unavailable
  | Adapter_error adapter_call
  | Ffmpeg_error
  | FileNotFoundError path

text \<open>A group-call object, reduced to the attribute the manager assigns.\<close>

record group_call =
  input_filename :: "path option"

record state =
  group_calls :: "chat_id \<rightharpoonup> handle"
  heap :: "handle \<rightharpoonup> group_call"
  next_handle :: handle
  files :: "path \<rightharpoonup> blob"
  trace :: "adapter_call list"

text \<open>\<open>MusicManager.__init__\<close>: no group call yet; the disk holds whatever it held.\<close>

definition init :: "(path \<rightharpoonup> blob) \<Rightarrow> state" where
  "init fs = \<lparr>group_calls = Map.empty, heap = Map.empty, next_handle = 0, files = fs, trace = []\<rparr>"

record status =
  connected :: bool
  chat_id :: chat_id
  has_group_call :: bool

subsection \<open>Paths\<close>

text \<open>Python's \<open>str\<close> of an integer: decimal digits, with a minus sign when negative.\<close>

definition digit_char :: "nat \<Rightarrow> char" where
  "digit_char d = ''0123456789'' ! d"

function str_nat :: "nat \<Rightarrow> string" where
  "str_nat n = (if n < 10 then [digit_char n] else str_nat (n div 10) @ [digit_char (n mod 10)])"
  by pat_completeness auto
termination
  by (relation "measure (\<lambda>n. n)") auto

declare str_nat.simps [simp del]

definition str_int :: "int \<Rightarrow> string" where
  "str_int i = (if i < 0 then CHR ''-'' # str_nat (nat (- i)) else str_nat (nat i))"

text \<open>The f-string \<open>f"{chat_id}.raw"\<close>.\<close>

definition raw_path :: "chat_id \<Rightarrow> path" where
  "raw_path c = str_int c @ ''.raw''"

text \<open>\<open>self.downloads_dir = Path("data") / "downloads"\<close>.\<close>

definition downloads_dir :: path where
  "downloads_dir = ''data/downloads''"

definition in_downloads :: "string \<Rightarrow> path" where
  "in_downloads name = downloads_dir @ ''/'' @ name"

text \<open>
  \<open>self.downloads_dir.glob("ytdl_out.*")\<close>: the entries of the directory itself whose name
  starts with \<open>ytdl_out.\<close>.
\<close>

definition glob_ytdl_out :: "path \<Rightarrow> bool" where
  "glob_ytdl_out p =
     (let pre = in_downloads ''ytdl_out.''
      in take (length pre) p = pre \<and> CHR ''/'' \<notin> set (drop (length pre) p))"

subsection \<open>Primitive steps\<close>

definition log_call :: "adapter_call \<Rightarrow> state \<Rightarrow> state" where
  "log_call c s = s\<lparr>trace := trace s @ [c]\<rparr>"

text \<open>\<open>os.remove\<close>: raises \<open>FileNotFoundError\<close> when there is no such file.\<close>

definition os_remove :: "path \<Rightarrow> state \<Rightarrow> error + state" where
  "os_remove p s =
     (if files s p = None then Inl (FileNotFoundError p)
      else Inr (s\<lparr>files := (files s)(p := None)\<rparr>))"

subsection \<open>The registry\<close>

text \<open>\<open>MusicManager._get_call\<close>.\<close>

definition get_call :: "env \<Rightarrow> state \<Rightarrow> chat_id \<Rightarrow> (error + handle) \<times> state" where
  "get_call e s c =
     (if \<not> PYTGCALLS_AVAILABLE e then (Inl Pytgcalls_unavailable, s)
      else case group_calls s c of
        Some h \<Rightarrow> (Inr h, s)
      | None \<Rightarrow>
          let s1 = log_call Get_file_group_call s in
          if raises e (trace s) Get_file_group_call
          then (Inl (Adapter_error Get_file_group_call), s1)
          else let h = next_handle s1 in
            (Inr h, s1\<lparr>group_calls := (group_calls s1)(c \<mapsto> h),
                       heap := (heap s1)(h \<mapsto> \<lparr>input_filename = None\<rparr>),
                       next_handle := Suc h\<rparr>))"

text \<open>\<open>MusicManager.get_status\<close>.\<close>

definition get_status :: "state \<Rightarrow> chat_id \<Rightarrow> status \<times> state" where
  "get_status s c =
     (let is_connected = (c \<in> dom (group_calls s))
      in (\<lparr>connected = is_connected, chat_id = c, has_group_call = is_connected\<rparr>, s))"

subsection \<open>Joining and leaving\<close>

text \<open>\<open>MusicManager.join_voice_chat\<close>: any exception is caught and reported as \<open>False\<close>.\<close>

definition join_voice_chat :: "env \<Rightarrow> state \<Rightarrow> chat_id \<Rightarrow> bool \<times> state" where
  "join_voice_chat e s c =
     (case get_call e s c of
        (Inl err, s1) \<Rightarrow> (False, s1)
      | (Inr h0, s1) \<Rightarrow>
          (case group_calls s1 c of
             None \<Rightarrow> (False, s1)
           | Some h \<Rightarrow>
               let s2 = log_call (Start h c) s1 in
               if raises e (trace s1) (Start h c) then (False, s2) else (True, s2)))"

text \<open>
  \<open>MusicManager.leave_voice_chat\<close>. An exception of \<open>stop()\<close> leaves the \<open>try\<close> block before
  the \<open>del\<close> and the \<open>os.remove\<close>; only \<open>FileNotFoundError\<close> of the removal is swallowed.
\<close>

definition leave_voice_chat :: "env \<Rightarrow> state \<Rightarrow> chat_id \<Rightarrow> bool \<times> state" where
  "leave_voice_chat e s c =
     (case group_calls s c of
        None \<Rightarrow> (False, s)
      | Some h \<Rightarrow>
          let s1 = log_call (Stop h) s in
          if raises e (trace s) (Stop h) then (False, s1)
          else
            let s2 = s1\<lparr>group_calls := (group_calls s1)(c := None)\<rparr> in
            (case os_remove (raw_path c) s2 of
               Inl err \<Rightarrow> (True, s2)
             | Inr s3 \<Rightarrow> (True, s3)))"

subsection \<open>The pipeline: fetch, transcode, hand-off\<close>

definition write_files :: "(string \<times> blob) list \<Rightarrow> (path \<rightharpoonup> blob) \<Rightarrow> (path \<rightharpoonup> blob)" where
  "write_files ws fs = fold (\<lambda>(name, b) f. f(in_downloads name \<mapsto> b)) ws fs"

definition ytdl_out_mp3 :: path where
  "ytdl_out_mp3 = in_downloads ''ytdl_out.mp3''"

text \<open>
  \<open>MusicManager.download_audio\<close>: unlink what the glob finds, run yt-dlp, return the path of
  \<open>ytdl_out.mp3\<close> when it exists. An exception gives \<open>None\<close>.
\<close>

definition clear_downloads :: "state \<Rightarrow> state" where
  "clear_downloads s = s\<lparr>files := (\<lambda>p. if glob_ytdl_out p then None else files s p)\<rparr>"

definition download_audio :: "env \<Rightarrow> state \<Rightarrow> string \<Rightarrow> path option \<times> state" where
  "download_audio e s source =
     (let s1 = clear_downloads s;
          s2 = log_call (Extract_info source) s1
      in case extract_info e (trace s1) (files s1) source of
           Ytdl_raise ws \<Rightarrow> (None, s2\<lparr>files := write_files ws (files s2)\<rparr>)
         | Ytdl_ok ws \<Rightarrow>
             let s3 = s2\<lparr>files := write_files ws (files s2)\<rparr> in
             if files s3 ytdl_out_mp3 \<noteq> None then (Some ytdl_out_mp3, s3) else (None, s3))"

text \<open>
  \<open>MusicManager.convert_audio\<close>. The exception is logged and raised again, so the result is
  an error or the output path. ffmpeg cannot read an input file that does not exist.
\<close>

definition convert_args :: "path \<Rightarrow> chat_id \<Rightarrow> ffmpeg_args" where
  "convert_args inp c =
     \<lparr>input_file = inp, output_file = raw_path c, format = ''s16le'', acodec = ''pcm_s16le'',
      ac = 2, ar = ''48k'', overwrite_output = True\<rparr>"

definition remove_existing_output :: "state \<Rightarrow> chat_id \<Rightarrow> error + state" where
  "remove_existing_output s c =
     (if files s (raw_path c) \<noteq> None then os_remove (raw_path c) s else Inr s)"

definition convert_audio :: "env \<Rightarrow> state \<Rightarrow> path \<Rightarrow> chat_id \<Rightarrow> (error + path) \<times> state" where
  "convert_audio e s inp c =
     (let out = raw_path c in
      case remove_existing_output s c of
        Inl err \<Rightarrow> (Inl err, s)
      | Inr s1 \<Rightarrow>
          let args = convert_args inp c;
              s2 = log_call (Ffmpeg_run args) s1
          in case files s1 inp of
               None \<Rightarrow> (Inl Ffmpeg_error, s2)
             | Some b \<Rightarrow>
                 (case ffmpeg e (trace s1) (files s1) args of
                    Ffmpeg_fail partial \<Rightarrow>
                      (Inl Ffmpeg_error, s2\<lparr>files := (files s2)(out := partial)\<rparr>)
                  | Ffmpeg_done pcm \<Rightarrow>
                      let s3 = s2\<lparr>files := (files s2)(out \<mapsto> pcm)\<rparr> in
                      (case os_remove inp s3 of
                         Inl err \<Rightarrow> (Inl err, s3)
                       | Inr s4 \<Rightarrow> (Inr out, s4))))"

text \<open>The assignment \<open>self.group_calls[chat_id].input_filename = raw_file\<close>.\<close>

definition set_input_filename :: "env \<Rightarrow> state \<Rightarrow> chat_id \<Rightarrow> path \<Rightarrow> bool \<times> state" where
  "set_input_filename e s c raw_file =
     (case group_calls s c of
        None \<Rightarrow> (False, s)
      | Some h \<Rightarrow>
          let s1 = log_call (Set_input_filename h raw_file) s in
          if raises e (trace s) (Set_input_filename h raw_file) then (False, s1)
          else (True, s1\<lparr>heap := (heap s1)(h \<mapsto> \<lparr>input_filename = Some raw_file\<rparr>)\<rparr>))"

text \<open>\<open>MusicManager.play_audio\<close>.\<close>

definition play_audio :: "env \<Rightarrow> state \<Rightarrow> chat_id \<Rightarrow> string \<Rightarrow> bool \<times> state" where
  "play_audio e s c source =
     (if c \<notin> dom (group_calls s) then (False, s)
      else case download_audio e s source of
        (None, s1) \<Rightarrow> (False, s1)
      | (Some audio_file, s1) \<Rightarrow>
          if audio_file = [] then (False, s1)
          else (case convert_audio e s1 audio_file c of
                  (Inl err, s2) \<Rightarrow> (False, s2)
                | (Inr raw_file, s2) \<Rightarrow> set_input_filename e s2 c raw_file))"

text \<open>\<open>MusicManager.play_from_file\<close>.\<close>

definition play_from_file :: "env \<Rightarrow> state \<Rightarrow> chat_id \<Rightarrow> path \<Rightarrow> bool \<times> state" where
  "play_from_file e s c file_path =
     (if c \<notin> dom (group_calls s) then (False, s)
      else case convert_audio e s file_path c of
        (Inl err, s2) \<Rightarrow> (False, s2)
      | (Inr raw_file, s2) \<Rightarrow> set_input_filename e s2 c raw_file)"

subsection \<open>Playout control\<close>

text \<open>
  \<open>stop_audio\<close>, \<open>pause_audio\<close>, \<open>resume_audio\<close>, \<open>replay_audio\<close>, \<open>mute_audio\<close> and
  \<open>unmute_audio\<close> have one shape: when the chat id is in \<open>group_calls\<close>, call one method of
  its object and return \<open>True\<close>, or \<open>False\<close> when the method raises; otherwise return \<open>False\<close>.
\<close>

definition call_method :: "env \<Rightarrow> state \<Rightarrow> chat_id \<Rightarrow> (handle \<Rightarrow> adapter_call) \<Rightarrow> bool \<times> state" where
  "call_method e s c m =
     (case group_calls s c of
        None \<Rightarrow> (False, s)
      | Some h \<Rightarrow>
          let s1 = log_call (m h) s in
          if raises e (trace s) (m h) then (False, s1) else (True, s1))"

definition stop_audio :: "env \<Rightarrow> state \<Rightarrow> chat_id \<Rightarrow> bool \<times> state" where
  "stop_audio e s c = call_method e s c Stop_playout"

definition pause_audio :: "env \<Rightarrow> state \<Rightarrow> chat_id \<Rightarrow> bool \<times> state" where
  "pause_audio e s c = call_method e s c Pause_playout"

definition resume_audio :: "env \<Rightarrow> state \<Rightarrow> chat_id \<Rightarrow> bool \<times> state" where
  "resume_audio e s c = call_method e s c Resume_playout"

definition replay_audio :: "env \<Rightarrow> state \<Rightarrow> chat_id \<Rightarrow> bool \<times> state" where
  "replay_audio e s c = call_method e s c Restart_playout"

definition mute_audio :: "env \<Rightarrow> state \<Rightarrow> chat_id \<Rightarrow> bool \<times> state" where
  "mute_audio e s c = call_method e s c (\<lambda>h. Set_is_mute h True)"

definition unmute_audio :: "env \<Rightarrow> state \<Rightarrow> chat_id \<Rightarrow> bool \<times> state" where
  "unmute_audio e s c = call_method e s c (\<lambda>h. Set_is_mute h False)"

subsection \<open>Sequences of commands\<close>

datatype command =
    Join chat_id
  | Leave chat_id
  | Play chat_id string
  | Play_file chat_id path
  | Stop_cmd chat_id
  | Pause chat_id
  | Resume chat_id
  | Replay chat_id
  | Mute chat_id
  | Unmute chat_id
  | Status chat_id

fun exec :: "env \<Rightarrow> command \<Rightarrow> state \<Rightarrow> state" where
  "exec e (Join c) s = snd (join_voice_chat e s c)"
| "exec e (Leave c) s = snd (leave_voice_chat e s c)"
| "exec e (Play c source) s = snd (play_audio e s c source)"
| "exec e (Play_file c p) s = snd (play_from_file e s c p)"
| "exec e (Stop_cmd c) s = snd (stop_audio e s c)"
| "exec e (Pause c) s = snd (pause_audio e s c)"
| "exec e (Resume c) s = snd (resume_audio e s c)"
| "exec e (Replay c) s = snd (replay_audio e s c)"
| "exec e (Mute c) s = snd (mute_audio e s c)"
| "exec e (Unmute c) s = snd (unmute_audio e s c)"
| "exec e (Status c) s = snd (get_status s c)"

fun run :: "env \<Rightarrow> command list \<Rightarrow> state \<Rightarrow> state" where
  "run e [] s = s"
| "run e (cmd # cmds) s = run e cmds (exec e cmd s)"

subsection \<open>The play command (src/core/client.py)\<close>

text \<open>
  \<open>play_handler\<close> of \<open>_setup_handlers\<close>, for the case that the calls to the Telegram client
  (\<open>get_reply_message\<close>, \<open>respond\<close>, \<open>edit\<close>, \<open>download_media\<close>) return. The message the
  command replies to, if any, is an argument; \<open>download_media\<close> saves its file under the
  path and with the content the message carries. The result lists the replies sent.
\<close>

datatype message =
    Not_joined
  | Downloading
  | Downloading_audio_file
  | Converting
  | Downloading_from_url
  | Playing
  | Failed_to_play_audio

datatype reply_action = Respond message | Edit message

record reply_file =
  mime_type :: "string option"
  media_path :: path
  media :: blob

text \<open>The attribute \<open>reply.file\<close> (the name \<open>file\<close> is reserved here).\<close>

record reply_message =
  msg_file :: "reply_file option"

definition is_audio_reply :: "reply_message option \<Rightarrow> bool" where
  "is_audio_reply reply =
     (case reply of
        None \<Rightarrow> False
      | Some r \<Rightarrow>
          (case msg_file r of
             None \<Rightarrow> False
           | Some f \<Rightarrow>
               (case mime_type f of
                  None \<Rightarrow> False
                | Some m \<Rightarrow> m \<noteq> [] \<and> take 5 m = ''audio'')))"

definition download_media :: "reply_file \<Rightarrow> state \<Rightarrow> path \<times> state" where
  "download_media f s = (media_path f, s\<lparr>files := (files s)(media_path f \<mapsto> media f)\<rparr>)"

definition play_handler ::
  "env \<Rightarrow> state \<Rightarrow> chat_id \<Rightarrow> string \<Rightarrow> reply_message option \<Rightarrow> reply_action list \<times> state" where
  "play_handler e s c source reply =
     (if c \<notin> dom (group_calls s) then ([Respond Not_joined], s)
      else if is_audio_reply reply then
        (case reply of
           None \<Rightarrow> ([Respond Downloading], s)
         | Some r \<Rightarrow>
             (case msg_file r of
                None \<Rightarrow> ([Respond Downloading], s)
              | Some f \<Rightarrow>
                  (case download_media f s of
                     (audio_file, s1) \<Rightarrow>
                       (case play_from_file e s1 c audio_file of
                          (success, s2) \<Rightarrow>
                            ([Respond Downloading, Edit Downloading_audio_file, Edit Converting,
                              Edit (if success then Playing else Failed_to_play_audio)], s2)))))
      else
        (case play_audio e s c source of
           (success, s2) \<Rightarrow>
             ([Respond Downloading, Edit Downloading_from_url,
               Edit (if success then Playing else Failed_to_play_audio)], s2)))"

subsection \<open>Overlapping play commands\<close>

text \<open>
  The attachment branch of \<open>play_handler\<close> awaits the Telegram client between its stages:
  \<open>await reply.download_media()\<close>, then \<open>await event.edit(...)\<close>, then
  \<open>self.music.play_from_file(chat_id, audio_file)\<close>. At each await the handler of another
  message can run. So the runs of several play commands execute as a sequence of stages:
  the fetch of an attachment, the transcode and hand-off of a fetched attachment, and, for a
  URL, \<open>play_audio\<close> as one stage (it awaits nothing that suspends). Each handler has
  passed its own not-joined test before its first stage.
\<close>

datatype stage =
    Fetch_attachment reply_file
  | Transcode_handoff chat_id path
  | Fetch_transcode_handoff chat_id string

fun stage_step :: "env \<Rightarrow> stage \<Rightarrow> state \<Rightarrow> state" where
  "stage_step e (Fetch_attachment f) s = snd (download_media f s)"
| "stage_step e (Transcode_handoff c audio_file) s = snd (play_from_file e s c audio_file)"
| "stage_step e (Fetch_transcode_handoff c source) s = snd (play_audio e s c source)"

fun run_stages :: "env \<Rightarrow> stage list \<Rightarrow> state \<Rightarrow> state" where
  "run_stages e [] s = s"
| "run_stages e (st # sts) s = run_stages e sts (stage_step e st s)"





subsection \<open>Auxiliary notions for the proofs\<close>

text \<open>Reading a decimal numeral back, to show that \<open>str_nat\<close> loses nothing.\<close>

definition digit_val :: "char \<Rightarrow> nat" where
  "digit_val ch = length (takeWhile (\<lambda>x. x \<noteq> ch) ''0123456789'')"

definition nat_of_str :: "string \<Rightarrow> nat" where
  "nat_of_str cs = foldl (\<lambda>a ch. 10 * a + digit_val ch) 0 cs"

text \<open>Every handle in the registry was issued before: the next handle is fresh.\<close>

definition handles_below :: "state \<Rightarrow> bool" where
  "handles_below s = (\<forall>c h. group_calls s c = Some h \<longrightarrow> h < next_handle s)"

text \<open>An environment in which no external call fails, used to run examples.\<close>

definition env_ok :: env where
  "env_ok = \<lparr>PYTGCALLS_AVAILABLE = True, raises = (\<lambda>tr call. False),
            extract_info = (\<lambda>tr fs source. Ytdl_ok [(''ytdl_out.mp3'', ''mp3:'' @ source)]),
            ffmpeg = (\<lambda>tr fs args. Ffmpeg_done (''pcm:'' @ (case fs (input_file args) of None \<Rightarrow> [] | Some b \<Rightarrow> b)))\<rparr>"

text \<open>An environment in which \<open>stop()\<close> of a group call raises, and nothing else fails.\<close>

definition env_stop_fails :: env where
  "env_stop_fails = env_ok\<lparr>raises := (\<lambda>tr call. case call of Stop h \<Rightarrow> True | _ \<Rightarrow> False)\<rparr>"

text \<open>
  An environment in which ffmpeg converts one particular download and fails on every other
  input, leaving a partial output file.
\<close>

definition env_ffmpeg_fails :: env where
  "env_ffmpeg_fails =
     env_ok\<lparr>ffmpeg := (\<lambda>tr fs args. if fs (input_file args) = Some ''mp3:good''
                                   then Ffmpeg_done ''pcm'' else Ffmpeg_fail (Some ''partial''))\<rparr>"

text \<open>An environment in which yt-dlp raises without writing anything.\<close>

definition env_fetch_fails :: env where
  "env_fetch_fails = env_ok\<lparr>extract_info := (\<lambda>tr fs source. Ytdl_raise [])\<rparr>"

text \<open>No group-call object is registered for two chats.\<close>

definition registry_inj :: "state \<Rightarrow> bool" where
  "registry_inj s =
     (\<forall>c1 c2 h. group_calls s c1 = Some h \<and> group_calls s c2 = Some h \<longrightarrow> c1 = c2)"

section \<open>Properties\<close>

subsection \<open>Paths: the artifact name determines the chat\<close>



lemma digit_cases: "d < 10 \<Longrightarrow> d \<in> {0, 1, 2, 3, 4, 5, 6, 7, 8, 9::nat}"
  by auto

lemma digit_val_digit_char: "d < 10 \<Longrightarrow> digit_val (digit_char d) = d"
  by (drule digit_cases) (auto simp: digit_val_def digit_char_def)

lemma nat_of_str_snoc: "nat_of_str (cs @ [ch]) = 10 * nat_of_str cs + digit_val ch"
  by (simp add: nat_of_str_def)

lemma nat_of_str_str_nat: "nat_of_str (str_nat n) = n"
proof (induction n rule: str_nat.induct)
  case (1 n)
  show ?case
  proof (cases "n < 10")
    case True
    then show ?thesis
      by (simp add: str_nat.simps [of n] nat_of_str_def digit_val_digit_char)
  next
    case False
    with 1 have "nat_of_str (str_nat (n div 10)) = n div 10" by simp
    with False show ?thesis
      by (simp add: str_nat.simps [of n] nat_of_str_snoc digit_val_digit_char)
  qed
qed

lemma str_nat_inj: "str_nat m = str_nat n \<Longrightarrow> m = n"
  by (metis nat_of_str_str_nat)

lemma digit_char_neq: "d < 10 \<Longrightarrow> digit_char d \<noteq> CHR ''-'' \<and> digit_char d \<noteq> CHR ''d''"
  by (drule digit_cases) (auto simp: digit_char_def)

lemma str_nat_hd: "\<exists>d cs. d < 10 \<and> str_nat n = digit_char d # cs"
proof (induction n rule: str_nat.induct)
  case (1 n)
  show ?case
  proof (cases "n < 10")
    case True
    then show ?thesis by (auto simp: str_nat.simps [of n])
  next
    case False
    with 1 obtain d cs where "d < 10" "str_nat (n div 10) = digit_char d # cs" by auto
    with False show ?thesis by (auto simp: str_nat.simps [of n])
  qed
qed

lemma str_int_neg: "i < 0 \<Longrightarrow> str_int i = CHR ''-'' # str_nat (nat (- i))"
  by (simp add: str_int_def)

lemma str_int_nonneg: "\<not> i < 0 \<Longrightarrow> str_int i = str_nat (nat i)"
  by (simp add: str_int_def)

lemma str_nat_not_minus: "str_nat n \<noteq> CHR ''-'' # cs"
proof -
  obtain d ds where "d < 10" and "str_nat n = digit_char d # ds"
    using str_nat_hd by blast
  then show ?thesis
    using digit_char_neq [of d] by simp
qed

lemma str_int_inj: "str_int i = str_int j \<Longrightarrow> i = j"
proof -
  assume eq: "str_int i = str_int j"
  consider (nn) "i < 0" "j < 0" | (np) "i < 0" "\<not> j < 0"
    | (pn) "\<not> i < 0" "j < 0" | (pp) "\<not> i < 0" "\<not> j < 0"
    by blast
  then show ?thesis
  proof cases
    case nn
    with eq have "str_nat (nat (- i)) = str_nat (nat (- j))"
      by (simp add: str_int_neg)
    then have "nat (- i) = nat (- j)" by (rule str_nat_inj)
    with nn show ?thesis by simp
  next
    case np
    with eq have "str_nat (nat j) = CHR ''-'' # str_nat (nat (- i))"
      by (simp add: str_int_neg str_int_nonneg)
    then show ?thesis using str_nat_not_minus by blast
  next
    case pn
    with eq have "str_nat (nat i) = CHR ''-'' # str_nat (nat (- j))"
      by (simp add: str_int_neg str_int_nonneg)
    then show ?thesis using str_nat_not_minus by blast
  next
    case pp
    with eq have "str_nat (nat i) = str_nat (nat j)"
      by (simp add: str_int_nonneg)
    then have "nat i = nat j" by (rule str_nat_inj)
    with pp show ?thesis by simp
  qed
qed


lemma raw_path_inj: "raw_path c = raw_path c' \<Longrightarrow> c = c'"
  by (simp add: raw_path_def str_int_inj)

lemma raw_path_hd: "\<exists>ch cs. raw_path c = ch # cs \<and> ch \<noteq> CHR ''d''"
proof -
  obtain d cs where d: "d < 10" "str_nat (nat c) = digit_char d # cs"
    using str_nat_hd by blast
  with digit_char_neq [of d] show ?thesis
    by (auto simp: raw_path_def str_int_def)
qed

lemma raw_path_not_in_downloads: "raw_path c \<noteq> in_downloads name"
  using raw_path_hd [of c] by (auto simp: in_downloads_def downloads_dir_def)

lemma raw_path_not_glob: "\<not> glob_ytdl_out (raw_path c)"
  using raw_path_hd [of c] by (auto simp: glob_ytdl_out_def in_downloads_def downloads_dir_def)

lemma raw_path_1: "raw_path 1 = ''1.raw''"
  by (simp add: raw_path_def str_int_def str_nat.simps digit_char_def)

lemma glob_mp3: "glob_ytdl_out ytdl_out_mp3"
  by (simp add: glob_ytdl_out_def ytdl_out_mp3_def in_downloads_def downloads_dir_def)

subsection \<open>The registry keeps one object per chat\<close>

lemma remove_existing_output_eq:
  "remove_existing_output s c = Inr (s\<lparr>files := (files s)(raw_path c := None)\<rparr>)"
  by (cases s) (auto simp: remove_existing_output_def os_remove_def fun_upd_idem)


lemma get_call_keeps:
  "group_calls s c' = Some h \<Longrightarrow> group_calls (snd (get_call e s c)) c' = Some h"
  by (auto simp: get_call_def log_call_def Let_def split: if_splits option.splits)

lemma call_method_group_calls [simp]: "group_calls (snd (call_method e s c m)) = group_calls s"
  by (auto simp: call_method_def log_call_def Let_def split: option.splits)

lemma download_audio_group_calls [simp]: "group_calls (snd (download_audio e s src)) = group_calls s"
  by (auto simp: download_audio_def clear_downloads_def log_call_def Let_def split: ytdl_result.splits)

lemma convert_audio_group_calls [simp]: "group_calls (snd (convert_audio e s inp c)) = group_calls s"
  by (auto simp: convert_audio_def remove_existing_output_eq os_remove_def log_call_def Let_def
      split: ffmpeg_result.splits option.splits sum.splits)

lemma set_input_filename_group_calls [simp]: "group_calls (snd (set_input_filename e s c p)) = group_calls s"
  by (auto simp: set_input_filename_def log_call_def Let_def split: option.splits)

lemma play_from_file_group_calls [simp]: "group_calls (snd (play_from_file e s c p)) = group_calls s"
proof (cases "convert_audio e s p c")
  case (Pair r s2)
  then have "group_calls s2 = group_calls s"
    using convert_audio_group_calls [of e s p c] by simp
  with Pair show ?thesis
    by (cases r) (simp_all add: play_from_file_def)
qed

lemma play_audio_group_calls [simp]: "group_calls (snd (play_audio e s c src)) = group_calls s"
proof (cases "download_audio e s src")
  case (Pair a s1)
  then have g1: "group_calls s1 = group_calls s"
    using download_audio_group_calls [of e s src] by simp
  show ?thesis
  proof (cases a)
    case None
    with Pair g1 show ?thesis by (simp add: play_audio_def)
  next
    case (Some audio_file)
    obtain r s2 where c: "convert_audio e s1 audio_file c = (r, s2)"
      by (cases "convert_audio e s1 audio_file c")
    then have "group_calls s2 = group_calls s1"
      using convert_audio_group_calls [of e s1 audio_file c] by simp
    with Pair Some g1 c show ?thesis
      by (cases r) (simp_all add: play_audio_def)
  qed
qed

lemma join_voice_chat_keeps:
  "group_calls s c' = Some h \<Longrightarrow> group_calls (snd (join_voice_chat e s c)) c' = Some h"
  using get_call_keeps [of s c' h e c]
  by (auto simp: join_voice_chat_def log_call_def Let_def split: prod.splits sum.splits option.splits)

lemma leave_voice_chat_keeps:
  "group_calls s c' = Some h \<Longrightarrow> c' \<noteq> c \<Longrightarrow> group_calls (snd (leave_voice_chat e s c)) c' = Some h"
  by (auto simp: leave_voice_chat_def os_remove_def log_call_def Let_def split: option.splits)

lemma exec_keeps:
  "group_calls s c = Some h \<Longrightarrow> cmd \<noteq> Leave c \<Longrightarrow> group_calls (exec e cmd s) c = Some h"
  by (cases cmd)
     (simp_all add: join_voice_chat_keeps leave_voice_chat_keeps stop_audio_def pause_audio_def
        resume_audio_def replay_audio_def mute_audio_def unmute_audio_def get_status_def Let_def)

lemma run_keeps:
  "group_calls s c = Some h \<Longrightarrow> Leave c \<notin> set cmds \<Longrightarrow> group_calls (run e cmds s) c = Some h"
proof (induction cmds arbitrary: s)
  case Nil
  then show ?case by simp
next
  case (Cons cmd cmds)
  from Cons.prems have "group_calls (exec e cmd s) c = Some h"
    by (auto intro: exec_keeps)
  with Cons show ?case by simp
qed


lemma handles_below_init: "handles_below (init fs)"
  by (simp add: handles_below_def init_def)

lemma get_call_handles_below: "handles_below s \<Longrightarrow> handles_below (snd (get_call e s c))"
  by (auto simp: handles_below_def get_call_def log_call_def Let_def less_Suc_eq
      split: if_splits option.splits)

lemma next_handle_call_method [simp]: "next_handle (snd (call_method e s c m)) = next_handle s"
  by (auto simp: call_method_def log_call_def Let_def split: option.splits)

lemma next_handle_download_audio [simp]: "next_handle (snd (download_audio e s src)) = next_handle s"
  by (auto simp: download_audio_def clear_downloads_def log_call_def Let_def split: ytdl_result.splits)

lemma next_handle_convert_audio [simp]: "next_handle (snd (convert_audio e s inp c)) = next_handle s"
  by (auto simp: convert_audio_def remove_existing_output_eq os_remove_def log_call_def Let_def
      split: ffmpeg_result.splits option.splits sum.splits)

lemma next_handle_set_input_filename [simp]:
  "next_handle (snd (set_input_filename e s c p)) = next_handle s"
  by (auto simp: set_input_filename_def log_call_def Let_def split: option.splits)

lemma next_handle_play_from_file [simp]: "next_handle (snd (play_from_file e s c p)) = next_handle s"
proof (cases "convert_audio e s p c")
  case (Pair r s2)
  then have "next_handle s2 = next_handle s"
    using next_handle_convert_audio [of e s p c] by simp
  with Pair show ?thesis
    by (cases r) (simp_all add: play_from_file_def)
qed

lemma next_handle_play_audio [simp]: "next_handle (snd (play_audio e s c src)) = next_handle s"
proof (cases "download_audio e s src")
  case (Pair a s1)
  then have g1: "next_handle s1 = next_handle s"
    using next_handle_download_audio [of e s src] by simp
  show ?thesis
  proof (cases a)
    case None
    with Pair g1 show ?thesis by (simp add: play_audio_def)
  next
    case (Some audio_file)
    obtain r s2 where c: "convert_audio e s1 audio_file c = (r, s2)"
      by (cases "convert_audio e s1 audio_file c")
    then have "next_handle s2 = next_handle s1"
      using next_handle_convert_audio [of e s1 audio_file c] by simp
    with Pair Some g1 c show ?thesis
      by (cases r) (simp_all add: play_audio_def)
  qed
qed

lemma handles_below_cong:
  "handles_below s \<Longrightarrow> group_calls s' = group_calls s \<Longrightarrow> next_handle s' = next_handle s
     \<Longrightarrow> handles_below s'"
  by (simp add: handles_below_def)

lemma join_voice_chat_handles_below:
  "handles_below s \<Longrightarrow> handles_below (snd (join_voice_chat e s c))"
proof -
  assume "handles_below s"
  then have hb: "handles_below (snd (get_call e s c))"
    by (rule get_call_handles_below)
  obtain r s1 where g: "get_call e s c = (r, s1)"
    by (cases "get_call e s c")
  with hb have "handles_below s1" by simp
  then have "handles_below (log_call x s1)" for x
    by (simp add: handles_below_def log_call_def)
  with g \<open>handles_below s1\<close> show ?thesis
    by (auto simp: join_voice_chat_def Let_def split: sum.splits option.splits)
qed

lemma leave_voice_chat_handles_below:
  "handles_below s \<Longrightarrow> handles_below (snd (leave_voice_chat e s c))"
  by (auto simp: handles_below_def leave_voice_chat_def os_remove_def log_call_def Let_def
      split: option.splits if_splits)

lemma exec_handles_below: "handles_below s \<Longrightarrow> handles_below (exec e cmd s)"
  by (cases cmd)
     (auto simp: join_voice_chat_handles_below leave_voice_chat_handles_below stop_audio_def
        pause_audio_def resume_audio_def replay_audio_def mute_audio_def unmute_audio_def
        get_status_def Let_def elim: handles_below_cong)

lemma run_handles_below: "handles_below s \<Longrightarrow> handles_below (run e cmds s)"
  by (induction cmds arbitrary: s) (simp_all add: exec_handles_below)

lemma get_call_result:
  assumes "fst (get_call e s c) = Inr h"
  shows "group_calls (snd (get_call e s c)) c = Some h"
    and "c \<in> dom (group_calls s) \<Longrightarrow> group_calls s c = Some h \<and> snd (get_call e s c) = s"
    and "c \<notin> dom (group_calls s) \<Longrightarrow>
           h = next_handle s \<and> group_calls (snd (get_call e s c)) = (group_calls s)(c \<mapsto> h)"
  using assms
  by (auto simp: get_call_def log_call_def Let_def split: if_splits option.splits)

text \<open>
  Claim C9. The registry is a dictionary, so it holds at most one group-call object per chat
  id. \<open>_get_call\<close> creates an object only when the id is absent, and the object is then a
  fresh one, held by no other chat; when the id is present it returns the existing object and
  changes nothing. Hence two lookups of the same id, with any commands in between except a
  \<open>leave\<close> of that id, return the same object.
\<close>

theorem get_call_one_object_per_chat:
  assumes reach: "s = run e pre (init fs)"
    and first: "fst (get_call e s c) = Inr h"
    and no_leave: "Leave c \<notin> set cmds"
    and second: "fst (get_call e (run e cmds (snd (get_call e s c))) c) = Inr h'"
  shows "h' = h \<and>
         snd (get_call e (run e cmds (snd (get_call e s c))) c) = run e cmds (snd (get_call e s c)) \<and>
         (c \<in> dom (group_calls s) \<longrightarrow> group_calls s c = Some h \<and> snd (get_call e s c) = s) \<and>
         (c \<notin> dom (group_calls s) \<longrightarrow>
            h \<notin> ran (group_calls s) \<and>
            group_calls (snd (get_call e s c)) = (group_calls s)(c \<mapsto> h))"
proof -
  let ?s1 = "snd (get_call e s c)"
  let ?s2 = "run e cmds ?s1"
  have "group_calls ?s1 c = Some h"
    using first by (rule get_call_result(1))
  then have kept: "group_calls ?s2 c = Some h"
    using no_leave by (rule run_keeps)
  then have "c \<in> dom (group_calls ?s2)" by auto
  with get_call_result(2) [OF second] kept
  have same: "h' = h" and unchanged: "snd (get_call e ?s2 c) = ?s2"
    by simp_all
  have "handles_below s"
    unfolding reach by (rule run_handles_below) (rule handles_below_init)
  then have fresh: "next_handle s \<notin> ran (group_calls s)"
    by (auto simp: handles_below_def ran_def)
  show ?thesis
    using same unchanged get_call_result(2,3) [OF first] fresh by blast
qed

theorem get_call_one_object_per_chat_witness:
  "fst (get_call env_ok (run env_ok [] (init Map.empty)) 7) = Inr 0 \<and>
   Leave 7 \<notin> set [Join 8, Pause 7, Leave 8] \<and>
   fst (get_call env_ok (run env_ok [Join 8, Pause 7, Leave 8]
          (snd (get_call env_ok (run env_ok [] (init Map.empty)) 7))) 7) = Inr 0"
proof -
  have a: "fst (get_call env_ok (run env_ok [] (init Map.empty)) 7) = Inr 0"
    by (simp add: get_call_def env_ok_def init_def log_call_def)
  have b: "Leave 7 \<notin> set [Join 8, Pause 7, Leave 8]"
    by simp
  obtain h' where c: "fst (get_call env_ok (run env_ok [Join 8, Pause 7, Leave 8]
          (snd (get_call env_ok (run env_ok [] (init Map.empty)) 7))) 7) = Inr h'"
    by (simp add: get_call_def env_ok_def init_def log_call_def join_voice_chat_def
        pause_audio_def call_method_def leave_voice_chat_def os_remove_def Let_def)
  from get_call_one_object_per_chat [OF refl a b c] have "h' = 0" by simp
  with a b c show ?thesis by simp
qed

subsection \<open>Status\<close>

text \<open>
  Claim C10. \<open>get_status\<close> changes nothing, and the flags \<open>connected\<close> and
  \<open>has_group_call\<close> it reports are equal: both say whether the chat id is a key of
  \<open>group_calls\<close>.
\<close>

theorem get_status_read_only:
  "snd (get_status s c) = s \<and>
   connected (fst (get_status s c)) = has_group_call (fst (get_status s c)) \<and>
   connected (fst (get_status s c)) = (c \<in> dom (group_calls s)) \<and>
   chat_id (fst (get_status s c)) = c"
  by (simp add: get_status_def Let_def)


subsection \<open>Play before join\<close>

text \<open>
  Claim C5. When the chat id is not a key of \<open>group_calls\<close>, \<open>play_audio\<close> (and
  \<open>play_from_file\<close>) returns \<open>False\<close> at once: the state afterwards is the state before,
  so nothing was fetched, transcoded or sent to the transport, and no file or object changed.
  The handler of the play command answers with the not-joined message and does not call
  the manager.
\<close>

theorem play_not_joined_rejected:
  assumes "c \<notin> dom (group_calls s)"
  shows "play_audio e s c source = (False, s) \<and>
         play_from_file e s c file_path = (False, s) \<and>
         play_handler e s c source reply = ([Respond Not_joined], s)"
  using assms by (simp add: play_audio_def play_from_file_def play_handler_def)

theorem play_not_joined_rejected_witness:
  "5 \<notin> dom (group_calls (init Map.empty)) \<and>
   play_audio env_ok (init Map.empty) 5 ''https://x/y'' = (False, init Map.empty) \<and>
   play_from_file env_ok (init Map.empty) 5 ''song.mp3'' = (False, init Map.empty) \<and>
   play_handler env_ok (init Map.empty) 5 ''https://x/y'' None
     = ([Respond Not_joined], init Map.empty)"
proof -
  have h: "5 \<notin> dom (group_calls (init Map.empty))"
    by (simp add: init_def)
  from play_not_joined_rejected [OF h] h show ?thesis by simp
qed

subsection \<open>Replay\<close>

text \<open>
  Claim C6 fails as stated. After a join and no play, the group-call object has no input
  file; \<open>replay_audio\<close> still calls \<open>restart_playout\<close> on it and returns \<open>True\<close>.
\<close>

theorem replay_without_artifact_counterexample:
  "heap (run env_ok [Join 3] (init Map.empty)) 0 = Some \<lparr>input_filename = None\<rparr> \<and>
   group_calls (run env_ok [Join 3] (init Map.empty)) 3 = Some 0 \<and>
   fst (replay_audio env_ok (run env_ok [Join 3] (init Map.empty)) 3) = True \<and>
   trace (snd (replay_audio env_ok (run env_ok [Join 3] (init Map.empty)) 3)) =
     [Get_file_group_call, Start 0 3, Restart_playout 0]"
  by (simp add: join_voice_chat_def get_call_def env_ok_def init_def log_call_def
      replay_audio_def call_method_def Let_def)

text \<open>
  Claim C6, as the code has it. \<open>replay_audio\<close> fails without a transport call exactly when
  the chat id is not a key of \<open>group_calls\<close>. When it is a key, \<open>restart_playout\<close> is called
  whether or not an artifact was ever prepared, and the result is \<open>True\<close> unless the call
  raises.
\<close>

theorem replay_audio_effect:
  "(c \<notin> dom (group_calls s) \<longrightarrow> replay_audio e s c = (False, s)) \<and>
   (\<forall>h. group_calls s c = Some h \<longrightarrow>
      replay_audio e s c =
        (\<not> raises e (trace s) (Restart_playout h), log_call (Restart_playout h) s))"
  by (auto simp: replay_audio_def call_method_def Let_def domIff split: option.splits)

theorem replay_audio_effect_witness:
  "3 \<notin> dom (group_calls (init Map.empty)) \<and>
   replay_audio env_ok (init Map.empty) 3 = (False, init Map.empty) \<and>
   group_calls (run env_ok [Join 3] (init Map.empty)) 3 = Some 0 \<and>
   replay_audio env_ok (run env_ok [Join 3] (init Map.empty)) 3 =
     (True, log_call (Restart_playout 0) (run env_ok [Join 3] (init Map.empty)))"
proof -
  have a: "3 \<notin> dom (group_calls (init Map.empty))"
    by (simp add: init_def)
  have b: "group_calls (run env_ok [Join 3] (init Map.empty)) 3 = Some 0"
    by (simp add: join_voice_chat_def get_call_def env_ok_def init_def log_call_def Let_def)
  have c: "\<not> raises env_ok tr call" for tr call
    by (simp add: env_ok_def)
  from replay_audio_effect [of 3 "init Map.empty" env_ok] a
  have "replay_audio env_ok (init Map.empty) 3 = (False, init Map.empty)"
    by blast
  moreover from replay_audio_effect [of 3 "run env_ok [Join 3] (init Map.empty)" env_ok] b c
  have "replay_audio env_ok (run env_ok [Join 3] (init Map.empty)) 3 =
     (True, log_call (Restart_playout 0) (run env_ok [Join 3] (init Map.empty)))"
    by simp
  ultimately show ?thesis using a b by simp
qed


subsection \<open>Transcode\<close>

lemma convert_audio_trace:
  "trace (snd (convert_audio e s inp c)) = trace s @ [Ffmpeg_run (convert_args inp c)]"
  by (auto simp: convert_audio_def Let_def log_call_def os_remove_def remove_existing_output_eq
      split: option.splits ffmpeg_result.splits)

lemma convert_audio_success:
  assumes "fst (convert_audio e s inp c) = Inr out"
  shows "out = raw_path c" and "inp \<noteq> raw_path c" and "files s inp \<noteq> None"
    and "files (snd (convert_audio e s inp c)) inp = None"
    and "\<exists>pcm. ffmpeg e (trace s) ((files s)(raw_path c := None)) (convert_args inp c)
                 = Ffmpeg_done pcm \<and>
               files (snd (convert_audio e s inp c)) out = Some pcm"
    and "q \<noteq> inp \<Longrightarrow> q \<noteq> raw_path c \<Longrightarrow> files (snd (convert_audio e s inp c)) q = files s q"
  using assms
  by (auto simp: convert_audio_def Let_def log_call_def os_remove_def remove_existing_output_eq
      split: option.splits ffmpeg_result.splits if_splits)

subsection \<open>Fetch\<close>

lemma in_downloads_inj: "in_downloads a = in_downloads b \<Longrightarrow> a = b"
  by (simp add: in_downloads_def)

lemma write_files_cases:
  "write_files ws fs p = fs p \<or>
   (\<exists>name b. (name, b) \<in> set ws \<and> p = in_downloads name \<and> write_files ws fs p = Some b)"
proof (induction ws arbitrary: fs)
  case Nil
  then show ?case by (simp add: write_files_def)
next
  case (Cons w ws)
  obtain name b where w: "w = (name, b)" by (cases w)
  have step: "write_files (w # ws) fs = write_files ws (fs(in_downloads name \<mapsto> b))"
    by (simp add: write_files_def w)
  let ?fs = "fs(in_downloads name \<mapsto> b)"
  from Cons.IH [of ?fs] consider
      (same) "write_files ws ?fs p = ?fs p"
    | (written) n' b' where "(n', b') \<in> set ws" "p = in_downloads n'"
        "write_files ws ?fs p = Some b'"
    by blast
  then show ?case
  proof cases
    case same
    show ?thesis
    proof (cases "p = in_downloads name")
      case True
      with same have "write_files (w # ws) fs p = Some b"
        by (simp add: step)
      with True w show ?thesis by auto
    next
      case False
      with same have "write_files (w # ws) fs p = fs p"
        by (simp add: step)
      then show ?thesis by simp
    qed
  next
    case written
    then have "write_files (w # ws) fs p = Some b'"
      by (simp add: step)
    with written show ?thesis by auto
  qed
qed

lemma clear_downloads_glob: "glob_ytdl_out p \<Longrightarrow> files (clear_downloads s) p = None"
  by (simp add: clear_downloads_def)

lemma clear_downloads_other: "\<not> glob_ytdl_out p \<Longrightarrow> files (clear_downloads s) p = files s p"
  by (simp add: clear_downloads_def)

lemma download_audio_Some:
  assumes "fst (download_audio e s source) = Some p"
  shows "p = ytdl_out_mp3 \<and>
     (\<exists>ws b. extract_info e (trace s) (files (clear_downloads s)) source = Ytdl_ok ws \<and>
        (''ytdl_out.mp3'', b) \<in> set ws \<and> files (snd (download_audio e s source)) p = Some b)"
proof -
  let ?s1 = "clear_downloads s"
  have tr: "trace ?s1 = trace s" by (simp add: clear_downloads_def)
  from assms obtain ws where
    ok: "extract_info e (trace s) (files ?s1) source = Ytdl_ok ws" and
    p: "p = ytdl_out_mp3" and
    fs: "files (snd (download_audio e s source)) = write_files ws (files ?s1)" and
    ex: "write_files ws (files ?s1) ytdl_out_mp3 \<noteq> None"
    by (auto simp: download_audio_def Let_def log_call_def tr split: ytdl_result.splits if_splits)
  have "files ?s1 ytdl_out_mp3 = None"
    by (rule clear_downloads_glob) (rule glob_mp3)
  with ex write_files_cases [of ws "files ?s1" ytdl_out_mp3]
  obtain name b where "(name, b) \<in> set ws" "ytdl_out_mp3 = in_downloads name"
    "write_files ws (files ?s1) ytdl_out_mp3 = Some b"
    by auto
  moreover from this have "name = ''ytdl_out.mp3''"
    by (auto simp: ytdl_out_mp3_def dest: in_downloads_inj)
  ultimately show ?thesis using ok p fs by auto
qed

lemma download_audio_ignores_stale:
  assumes "\<forall>p. \<not> glob_ytdl_out p \<longrightarrow> fs' p = files s p"
  shows "download_audio e (s\<lparr>files := fs'\<rparr>) source = download_audio e s source"
proof -
  have "clear_downloads (s\<lparr>files := fs'\<rparr>) = clear_downloads s"
    using assms by (auto simp: clear_downloads_def fun_eq_iff)
  then show ?thesis
    by (simp add: download_audio_def)
qed

text \<open>
  Claim C8. \<open>download_audio\<close> starts yt-dlp on a download directory without any
  \<open>ytdl_out.*\<close> file. A path it returns is \<open>ytdl_out.mp3\<close>, holding what this run of yt-dlp
  wrote there; and the result does not depend on which \<open>ytdl_out.*\<close> files a previous run
  had left.
\<close>

theorem download_audio_clears_stale:
  "(\<forall>p. glob_ytdl_out p \<longrightarrow> files (clear_downloads s) p = None) \<and>
   (\<forall>p. fst (download_audio e s source) = Some p \<longrightarrow>
      p = ytdl_out_mp3 \<and>
      (\<exists>ws b. extract_info e (trace s) (files (clear_downloads s)) source = Ytdl_ok ws \<and>
         (''ytdl_out.mp3'', b) \<in> set ws \<and> files (snd (download_audio e s source)) p = Some b)) \<and>
   (\<forall>fs'. (\<forall>p. \<not> glob_ytdl_out p \<longrightarrow> fs' p = files s p) \<longrightarrow>
      download_audio e (s\<lparr>files := fs'\<rparr>) source = download_audio e s source)"
  using clear_downloads_glob download_audio_Some download_audio_ignores_stale by blast


theorem download_audio_clears_stale_witness:
  "glob_ytdl_out ytdl_out_mp3 \<and>
   files (clear_downloads (init (Map.empty(ytdl_out_mp3 \<mapsto> ''stale'')))) ytdl_out_mp3 = None \<and>
   fst (download_audio env_ok (init (Map.empty(ytdl_out_mp3 \<mapsto> ''stale''))) ''u'')
     = Some ytdl_out_mp3 \<and>
   files (snd (download_audio env_ok (init (Map.empty(ytdl_out_mp3 \<mapsto> ''stale''))) ''u''))
     ytdl_out_mp3 = Some ''mp3:u'' \<and>
   download_audio env_ok ((init (Map.empty(ytdl_out_mp3 \<mapsto> ''stale'')))\<lparr>files := Map.empty\<rparr>) ''u''
     = download_audio env_ok (init (Map.empty(ytdl_out_mp3 \<mapsto> ''stale''))) ''u''"
proof -
  let ?s = "init (Map.empty(ytdl_out_mp3 \<mapsto> ''stale''))"
  have g: "glob_ytdl_out ytdl_out_mp3"
    by (rule glob_mp3)
  have w: "write_files [(''ytdl_out.mp3'', b)] fs ytdl_out_mp3 = Some b" for b fs
    by (simp add: write_files_def ytdl_out_mp3_def)
  have x: "extract_info env_ok tr fs ''u'' = Ytdl_ok [(''ytdl_out.mp3'', ''mp3:u'')]" for tr fs
    by (simp add: env_ok_def)
  have a: "fst (download_audio env_ok ?s ''u'') = Some ytdl_out_mp3"
    by (simp add: download_audio_def x w Let_def)
  have o: "\<forall>p. \<not> glob_ytdl_out p \<longrightarrow> Map.empty p = files ?s p"
  proof (intro allI impI)
    fix p assume "\<not> glob_ytdl_out p"
    with g have "p \<noteq> ytdl_out_mp3" by blast
    then show "Map.empty p = files ?s p" by (simp add: init_def)
  qed
  note inst = download_audio_clears_stale [of ?s env_ok "''u''"]
  from inst g have 1: "files (clear_downloads ?s) ytdl_out_mp3 = None"
    by blast
  from inst a obtain ws b where
    e: "extract_info env_ok (trace ?s) (files (clear_downloads ?s)) ''u'' = Ytdl_ok ws" and
    m: "(''ytdl_out.mp3'', b) \<in> set ws" and
    f: "files (snd (download_audio env_ok ?s ''u'')) ytdl_out_mp3 = Some b"
    by blast
  from e have "ws = [(''ytdl_out.mp3'', ''mp3:u'')]"
    unfolding x by simp
  with m have "b = ''mp3:u''" by simp
  with f have 2: "files (snd (download_audio env_ok ?s ''u'')) ytdl_out_mp3 = Some ''mp3:u''"
    by simp
  have 3: "download_audio env_ok (?s\<lparr>files := Map.empty\<rparr>) ''u'' = download_audio env_ok ?s ''u''"
    by (rule conjunct2 [OF conjunct2 [OF inst], rule_format]) (rule o [rule_format])
  show ?thesis
    apply (intro conjI)
        apply (rule g)
       apply (rule 1)
      apply (rule a)
     apply (rule 2)
    apply (rule 3)
    done
qed

subsection \<open>Leaving\<close>


lemma files_get_call [simp]: "files (snd (get_call e s c)) = files s"
  by (auto simp: get_call_def log_call_def Let_def split: option.splits)

lemma files_call_method [simp]: "files (snd (call_method e s c m)) = files s"
  by (auto simp: call_method_def log_call_def Let_def split: option.splits)

lemma files_set_input_filename [simp]: "files (snd (set_input_filename e s c p)) = files s"
  by (auto simp: set_input_filename_def log_call_def Let_def split: option.splits)

lemma files_join_voice_chat [simp]: "files (snd (join_voice_chat e s c)) = files s"
proof -
  obtain r s1 where g: "get_call e s c = (r, s1)"
    by (cases "get_call e s c")
  then have "files s1 = files s"
    using files_get_call [of e s c] by simp
  with g show ?thesis
    by (auto simp: join_voice_chat_def log_call_def Let_def split: sum.splits option.splits)
qed

lemma write_files_raw_path: "write_files ws fs (raw_path c) = fs (raw_path c)"
  using write_files_cases [of ws fs "raw_path c"] raw_path_not_in_downloads [of c] by auto

lemma files_download_audio_raw:
  "files (snd (download_audio e s src)) (raw_path c) = files s (raw_path c)"
  by (simp add: download_audio_def Let_def log_call_def write_files_raw_path
      clear_downloads_other raw_path_not_glob split: ytdl_result.splits)

lemma leave_not_joined: "c \<notin> dom (group_calls s) \<Longrightarrow> leave_voice_chat e s c = (False, s)"
  by (auto simp: leave_voice_chat_def split: option.splits)

lemma leave_stop_raises:
  "group_calls s c = Some h \<Longrightarrow> raises e (trace s) (Stop h) \<Longrightarrow>
     leave_voice_chat e s c = (False, log_call (Stop h) s)"
  by (simp add: leave_voice_chat_def Let_def)

lemma leave_stop_ok:
  "group_calls s c = Some h \<Longrightarrow> \<not> raises e (trace s) (Stop h) \<Longrightarrow>
     fst (leave_voice_chat e s c) = True \<and>
     group_calls (snd (leave_voice_chat e s c)) = (group_calls s)(c := None) \<and>
     files (snd (leave_voice_chat e s c)) = (files s)(raw_path c := None)"
  by (auto simp: leave_voice_chat_def os_remove_def log_call_def Let_def)

lemma leave_stop_trace:
  "group_calls s c = Some h \<Longrightarrow> \<not> raises e (trace s) (Stop h) \<Longrightarrow>
     trace (snd (leave_voice_chat e s c)) = trace s @ [Stop h]"
  by (auto simp: leave_voice_chat_def os_remove_def log_call_def Let_def)


text \<open>
  Claim C3 fails as stated, in two ways. A chat has joined and played; \<open>stop()\<close> raises on
  leave. The exception leaves the \<open>try\<close> block before the \<open>del\<close> and the \<open>os.remove\<close>: the
  registry still holds the chat id and the raw artifact is still on disk. And when the
  manager starts on a disk that still holds \<open>5.raw\<close>, a leave for chat 5, which is not in the
  registry, returns \<open>False\<close> without touching the file.
\<close>

theorem leave_teardown_failure_counterexample:
  "group_calls (run env_stop_fails [Join 1, Play 1 ''u''] (init Map.empty)) 1 = Some 0 \<and>
   files (run env_stop_fails [Join 1, Play 1 ''u''] (init Map.empty)) (raw_path 1)
     = Some ''pcm:mp3:u'' \<and>
   raises env_stop_fails (trace (run env_stop_fails [Join 1, Play 1 ''u''] (init Map.empty))) (Stop 0) \<and>
   fst (leave_voice_chat env_stop_fails
          (run env_stop_fails [Join 1, Play 1 ''u''] (init Map.empty)) 1) = False \<and>
   group_calls (snd (leave_voice_chat env_stop_fails
          (run env_stop_fails [Join 1, Play 1 ''u''] (init Map.empty)) 1)) 1 = Some 0 \<and>
   files (snd (leave_voice_chat env_stop_fails
          (run env_stop_fails [Join 1, Play 1 ''u''] (init Map.empty)) 1)) (raw_path 1)
     = Some ''pcm:mp3:u'' \<and>
   group_calls (init (Map.empty(raw_path 5 \<mapsto> ''left over''))) 5 = None \<and>
   fst (leave_voice_chat env_ok (init (Map.empty(raw_path 5 \<mapsto> ''left over''))) 5) = False \<and>
   files (snd (leave_voice_chat env_ok (init (Map.empty(raw_path 5 \<mapsto> ''left over''))) 5))
     (raw_path 5) = Some ''left over''"
  by code_simp

text \<open>
  Claim C3, as the code has it, in every state. For a chat id in the registry whose
  \<open>stop()\<close> does not raise, \<open>leave_voice_chat\<close> returns \<open>True\<close>, removes the chat id from the
  registry and leaves the chat's raw artifact absent, whether or not the chat ever played;
  no other registry entry and no other file changes. When \<open>stop()\<close> raises, the result is
  \<open>False\<close> and nothing is removed: the state differs from the one before only by the recorded
  call. For a chat id not in the registry the result is \<open>False\<close> and the state is unchanged,
  so a raw artifact under that id stays.
\<close>

theorem leave_voice_chat_effect:
  "(\<forall>h. group_calls s c = Some h \<and> \<not> raises e (trace s) (Stop h) \<longrightarrow>
      fst (leave_voice_chat e s c) = True \<and>
      group_calls (snd (leave_voice_chat e s c)) c = None \<and>
      files (snd (leave_voice_chat e s c)) (raw_path c) = None \<and>
      group_calls (snd (leave_voice_chat e s c)) = (group_calls s)(c := None) \<and>
      files (snd (leave_voice_chat e s c)) = (files s)(raw_path c := None) \<and>
      trace (snd (leave_voice_chat e s c)) = trace s @ [Stop h]) \<and>
   (\<forall>h. group_calls s c = Some h \<and> raises e (trace s) (Stop h) \<longrightarrow>
      leave_voice_chat e s c = (False, log_call (Stop h) s)) \<and>
   (c \<notin> dom (group_calls s) \<longrightarrow> leave_voice_chat e s c = (False, s))"
proof -
  have ok: "fst (leave_voice_chat e s c) = True \<and>
      group_calls (snd (leave_voice_chat e s c)) c = None \<and>
      files (snd (leave_voice_chat e s c)) (raw_path c) = None \<and>
      group_calls (snd (leave_voice_chat e s c)) = (group_calls s)(c := None) \<and>
      files (snd (leave_voice_chat e s c)) = (files s)(raw_path c := None) \<and>
      trace (snd (leave_voice_chat e s c)) = trace s @ [Stop h]"
    if "group_calls s c = Some h" and "\<not> raises e (trace s) (Stop h)" for h
    using leave_stop_ok [OF that] leave_stop_trace [OF that] by simp
  show ?thesis
    using ok leave_stop_raises leave_not_joined by blast
qed

theorem leave_voice_chat_effect_witness:
  "group_calls (run env_ok [Join 1, Play 1 ''u''] (init Map.empty)) 1 = Some 0 \<and>
   \<not> raises env_ok (trace (run env_ok [Join 1, Play 1 ''u''] (init Map.empty))) (Stop 0) \<and>
   files (run env_ok [Join 1, Play 1 ''u''] (init Map.empty)) (raw_path 1) = Some ''pcm:mp3:u'' \<and>
   fst (leave_voice_chat env_ok (run env_ok [Join 1, Play 1 ''u''] (init Map.empty)) 1) = True \<and>
   group_calls (snd (leave_voice_chat env_ok (run env_ok [Join 1, Play 1 ''u''] (init Map.empty)) 1)) 1 = None \<and>
   files (snd (leave_voice_chat env_ok (run env_ok [Join 1, Play 1 ''u''] (init Map.empty)) 1)) (raw_path 1) = None \<and>
   group_calls (run env_ok [Join 2] (init Map.empty)) 2 = Some 0 \<and>
   fst (leave_voice_chat env_ok (run env_ok [Join 2] (init Map.empty)) 2) = True \<and>
   files (snd (leave_voice_chat env_ok (run env_ok [Join 2] (init Map.empty)) 2)) (raw_path 2) = None \<and>
   group_calls (run env_stop_fails [Join 1] (init Map.empty)) 1 = Some 0 \<and>
   raises env_stop_fails (trace (run env_stop_fails [Join 1] (init Map.empty))) (Stop 0) \<and>
   leave_voice_chat env_stop_fails (run env_stop_fails [Join 1] (init Map.empty)) 1 =
     (False, log_call (Stop 0) (run env_stop_fails [Join 1] (init Map.empty))) \<and>
   4 \<notin> dom (group_calls (init Map.empty)) \<and>
   leave_voice_chat env_ok (init Map.empty) 4 = (False, init Map.empty)"
proof -
  let ?a = "run env_ok [Join 1, Play 1 ''u''] (init Map.empty)"
  let ?b = "run env_ok [Join 2] (init Map.empty)"
  let ?c = "run env_stop_fails [Join 1] (init Map.empty)"
  let ?d = "init Map.empty"
  have a1: "group_calls ?a 1 = Some 0" by code_simp
  have a2: "\<not> raises env_ok tr call" for tr call by (simp add: env_ok_def)
  have a3: "files ?a (raw_path 1) = Some ''pcm:mp3:u''" by code_simp
  have b1: "group_calls ?b 2 = Some 0" by code_simp
  have c1: "group_calls ?c 1 = Some 0" by code_simp
  have c2: "raises env_stop_fails (trace ?c) (Stop 0)" by code_simp
  have d1: "4 \<notin> dom (group_calls ?d)" by (simp add: init_def)
  note ia = leave_voice_chat_effect [of ?a 1 env_ok]
  note ib = leave_voice_chat_effect [of ?b 2 env_ok]
  note ic = leave_voice_chat_effect [of ?c 1 env_stop_fails]
  note id = leave_voice_chat_effect [of ?d 4 env_ok]
  have ra: "fst (leave_voice_chat env_ok ?a 1) = True \<and>
     group_calls (snd (leave_voice_chat env_ok ?a 1)) 1 = None \<and>
     files (snd (leave_voice_chat env_ok ?a 1)) (raw_path 1) = None"
    using ia a1 a2 by simp
  have rb: "fst (leave_voice_chat env_ok ?b 2) = True \<and>
     files (snd (leave_voice_chat env_ok ?b 2)) (raw_path 2) = None"
    using ib b1 a2 by simp
  have rc: "leave_voice_chat env_stop_fails ?c 1 = (False, log_call (Stop 0) ?c)"
    using ic c1 c2 by simp
  have rd: "leave_voice_chat env_ok ?d 4 = (False, ?d)"
    using id d1 by simp
  show ?thesis
    apply (intro conjI)
    apply (rule a1)
    apply (rule a2)
    apply (rule a3)
    apply (rule ra [THEN conjunct1])
    apply (rule ra [THEN conjunct2, THEN conjunct1])
    apply (rule ra [THEN conjunct2, THEN conjunct2])
    apply (rule b1)
    apply (rule rb [THEN conjunct1])
    apply (rule rb [THEN conjunct2])
    apply (rule c1)
    apply (rule c2)
    apply (rule rc)
    apply (rule d1)
    apply (rule rd)
    done
qed

subsection \<open>Failure inside the pipeline\<close>


lemma heap_download_audio [simp]: "heap (snd (download_audio e s src)) = heap s"
  by (auto simp: download_audio_def clear_downloads_def log_call_def Let_def split: ytdl_result.splits)

lemma heap_convert_audio [simp]: "heap (snd (convert_audio e s inp c)) = heap s"
  by (auto simp: convert_audio_def remove_existing_output_eq os_remove_def log_call_def Let_def
      split: ffmpeg_result.splits option.splits sum.splits)

lemma trace_download_audio:
  "trace (snd (download_audio e s src)) = trace s @ [Extract_info src]"
  by (auto simp: download_audio_def clear_downloads_def log_call_def Let_def split: ytdl_result.splits)

lemma ytdl_out_mp3_not_raw: "ytdl_out_mp3 \<noteq> raw_path c"
  using raw_path_not_in_downloads [of c "''ytdl_out.mp3''"] by (simp add: ytdl_out_mp3_def)

lemma ytdl_out_mp3_nonempty: "ytdl_out_mp3 \<noteq> []"
  by (simp add: ytdl_out_mp3_def in_downloads_def downloads_dir_def)

lemma convert_audio_failure:
  assumes "fst (convert_audio e s inp c) = Inl err" and "files s inp \<noteq> None"
    and "inp \<noteq> raw_path c"
  shows "\<exists>part. ffmpeg e (trace s) ((files s)(raw_path c := None)) (convert_args inp c)
                  = Ffmpeg_fail part \<and>
           files (snd (convert_audio e s inp c)) = (files s)(raw_path c := part)"
  using assms
  by (auto simp: convert_audio_def Let_def log_call_def os_remove_def remove_existing_output_eq
      split: option.splits ffmpeg_result.splits if_splits)

lemma play_audio_fetch_failed:
  assumes "c \<in> dom (group_calls s)" and "fst (download_audio e s source) = None"
  shows "play_audio e s c source = (False, snd (download_audio e s source))"
  using assms by (cases "download_audio e s source") (simp add: play_audio_def)

lemma play_audio_transcode_failed:
  assumes "c \<in> dom (group_calls s)" and "fst (download_audio e s source) = Some p"
    and "fst (convert_audio e (snd (download_audio e s source)) p c) = Inl err"
  shows "play_audio e s c source = (False, snd (convert_audio e (snd (download_audio e s source)) p c))"
proof -
  obtain a s1 where d: "download_audio e s source = (a, s1)"
    by (cases "download_audio e s source")
  obtain r s2 where cv: "convert_audio e s1 p c = (r, s2)"
    by (cases "convert_audio e s1 p c")
  from assms(2) have "p = ytdl_out_mp3"
    using download_audio_Some by blast
  then have "p \<noteq> []" by (simp add: ytdl_out_mp3_nonempty)
  with assms d cv show ?thesis
    by (simp add: play_audio_def)
qed

lemma play_audio_False_heap:
  assumes "fst (play_audio e s c source) = False"
  shows "heap (snd (play_audio e s c source)) = heap s"
proof (cases "c \<in> dom (group_calls s)")
  case False
  then show ?thesis by (simp add: play_audio_def)
next
  case True
  obtain a s1 where d: "download_audio e s source = (a, s1)"
    by (cases "download_audio e s source")
  then have h1: "heap s1 = heap s"
    using heap_download_audio [of e s source] by simp
  show ?thesis
  proof (cases a)
    case None
    with d True h1 show ?thesis by (simp add: play_audio_def)
  next
    case (Some audio_file)
    obtain r s2 where cv: "convert_audio e s1 audio_file c = (r, s2)"
      by (cases "convert_audio e s1 audio_file c")
    then have h2: "heap s2 = heap s1"
      using heap_convert_audio [of e s1 audio_file c] by simp
    show ?thesis
    proof (cases r)
      case (Inl err)
      with d True Some cv h1 h2 show ?thesis by (simp add: play_audio_def)
    next
      case (Inr raw_file)
      have "fst (set_input_filename e s2 c raw_file) = False \<Longrightarrow>
            heap (snd (set_input_filename e s2 c raw_file)) = heap s2"
        by (auto simp: set_input_filename_def log_call_def Let_def split: option.splits if_splits)
      with assms d True Some cv Inr h1 h2 show ?thesis
        by (auto simp: play_audio_def split: if_splits)
    qed
  qed
qed

text \<open>
  Claim C4 fails as stated. A chat has played one source; a second play fails in ffmpeg.
  \<open>convert_audio\<close> had already removed the installed artifact, and ffmpeg left a partial
  file under the same name: the object's \<open>input_filename\<close> still names that path.
\<close>

theorem play_failure_loses_artifact_counterexample:
  "heap (run env_ffmpeg_fails [Join 1, Play 1 ''good''] (init Map.empty)) 0
     = Some \<lparr>input_filename = Some (raw_path 1)\<rparr> \<and>
   files (run env_ffmpeg_fails [Join 1, Play 1 ''good''] (init Map.empty)) (raw_path 1) = Some ''pcm'' \<and>
   fst (play_audio env_ffmpeg_fails
          (run env_ffmpeg_fails [Join 1, Play 1 ''good''] (init Map.empty)) 1 ''bad'') = False \<and>
   heap (snd (play_audio env_ffmpeg_fails
          (run env_ffmpeg_fails [Join 1, Play 1 ''good''] (init Map.empty)) 1 ''bad'')) 0
     = Some \<lparr>input_filename = Some (raw_path 1)\<rparr> \<and>
   files (snd (play_audio env_ffmpeg_fails
          (run env_ffmpeg_fails [Join 1, Play 1 ''good''] (init Map.empty)) 1 ''bad'')) (raw_path 1)
     = Some ''partial''"
  by code_simp

text \<open>
  Claim C4, as the code has it, for a chat id in the registry. When the fetch fails, nothing
  more is called, \<open>False\<close> is returned, and the registry, the group-call objects and every
  chat's raw artifact are as before. When the transcode fails, the hand-off is skipped and
  \<open>False\<close> is returned; the registry, the group-call objects (so the transport's input
  name) and the other chats' artifacts are as before, but the file at this chat's artifact
  path is what the failed ffmpeg left there (nothing, or a partial file), not the artifact
  installed before. Whenever \<open>play_audio\<close> returns \<open>False\<close>, registry and objects are
  unchanged.
\<close>

theorem play_audio_failure:
  assumes joined: "c \<in> dom (group_calls s)"
  shows
    "(fst (download_audio e s source) = None \<longrightarrow>
        play_audio e s c source = (False, snd (download_audio e s source)) \<and>
        trace (snd (download_audio e s source)) = trace s @ [Extract_info source] \<and>
        group_calls (snd (download_audio e s source)) = group_calls s \<and>
        heap (snd (download_audio e s source)) = heap s \<and>
        (\<forall>c'. files (snd (download_audio e s source)) (raw_path c') = files s (raw_path c'))) \<and>
     (\<forall>p err. fst (download_audio e s source) = Some p \<and>
        fst (convert_audio e (snd (download_audio e s source)) p c) = Inl err \<longrightarrow>
        play_audio e s c source =
          (False, snd (convert_audio e (snd (download_audio e s source)) p c)) \<and>
        trace (snd (convert_audio e (snd (download_audio e s source)) p c)) =
          trace s @ [Extract_info source, Ffmpeg_run (convert_args p c)] \<and>
        group_calls (snd (convert_audio e (snd (download_audio e s source)) p c)) = group_calls s \<and>
        heap (snd (convert_audio e (snd (download_audio e s source)) p c)) = heap s \<and>
        (\<forall>c'. c' \<noteq> c \<longrightarrow>
           files (snd (convert_audio e (snd (download_audio e s source)) p c)) (raw_path c')
             = files s (raw_path c')) \<and>
        (\<exists>part. ffmpeg e (trace (snd (download_audio e s source)))
                   ((files (snd (download_audio e s source)))(raw_path c := None))
                   (convert_args p c) = Ffmpeg_fail part \<and>
           files (snd (convert_audio e (snd (download_audio e s source)) p c)) (raw_path c) = part)) \<and>
     (fst (play_audio e s c source) = False \<longrightarrow>
        group_calls (snd (play_audio e s c source)) = group_calls s \<and>
        heap (snd (play_audio e s c source)) = heap s)"
proof (intro conjI impI allI)
  let ?d = "download_audio e s source"
  {
    fix p err
    assume h: "fst ?d = Some p \<and> fst (convert_audio e (snd ?d) p c) = Inl err"
    let ?cv = "convert_audio e (snd ?d) p c"
    from h have p: "p = ytdl_out_mp3" and ex: "files (snd ?d) p \<noteq> None"
      using download_audio_Some [of e s source p] by auto
    from p have ne: "p \<noteq> raw_path c" by (simp add: ytdl_out_mp3_not_raw)
    from convert_audio_failure [OF _ ex ne] h obtain part where
      part: "ffmpeg e (trace (snd ?d)) ((files (snd ?d))(raw_path c := None)) (convert_args p c)
               = Ffmpeg_fail part"
      and fs: "files (snd ?cv) = (files (snd ?d))(raw_path c := part)"
      by blast
    show "play_audio e s c source = (False, snd ?cv)"
      using joined h by (simp add: play_audio_transcode_failed)
    show "trace (snd ?cv) = trace s @ [Extract_info source, Ffmpeg_run (convert_args p c)]"
      by (simp add: convert_audio_trace trace_download_audio)
    show "group_calls (snd ?cv) = group_calls s" by simp
    show "heap (snd ?cv) = heap s" by simp
    show "\<exists>part. ffmpeg e (trace (snd ?d)) ((files (snd ?d))(raw_path c := None))
                   (convert_args p c) = Ffmpeg_fail part \<and>
           files (snd ?cv) (raw_path c) = part"
      using part fs by simp
    fix c' assume "c' \<noteq> c"
    then have "raw_path c' \<noteq> raw_path c" by (auto dest: raw_path_inj)
    then show "files (snd ?cv) (raw_path c') = files s (raw_path c')"
      using fs by (simp add: files_download_audio_raw)
  }
  {
    assume "fst ?d = None"
    then show "play_audio e s c source = (False, snd ?d)"
      using joined by (simp add: play_audio_fetch_failed)
  }
  show "trace (snd ?d) = trace s @ [Extract_info source]"
    by (rule trace_download_audio)
  show "group_calls (snd ?d) = group_calls s" by simp
  show "heap (snd ?d) = heap s" by simp
  show "files (snd ?d) (raw_path c') = files s (raw_path c')" for c'
    by (rule files_download_audio_raw)
  show "group_calls (snd (play_audio e s c source)) = group_calls s" by simp
  assume "fst (play_audio e s c source) = False"
  then show "heap (snd (play_audio e s c source)) = heap s"
    by (rule play_audio_False_heap)
qed


theorem play_audio_failure_witness:
  "1 \<in> dom (group_calls (run env_fetch_fails [Join 1] (init Map.empty))) \<and>
   fst (download_audio env_fetch_fails (run env_fetch_fails [Join 1] (init Map.empty)) ''u'') = None \<and>
   play_audio env_fetch_fails (run env_fetch_fails [Join 1] (init Map.empty)) 1 ''u'' =
     (False, snd (download_audio env_fetch_fails (run env_fetch_fails [Join 1] (init Map.empty)) ''u'')) \<and>
   1 \<in> dom (group_calls (run env_ffmpeg_fails [Join 1, Play 1 ''good''] (init Map.empty))) \<and>
   fst (download_audio env_ffmpeg_fails
          (run env_ffmpeg_fails [Join 1, Play 1 ''good''] (init Map.empty)) ''bad'') = Some ytdl_out_mp3 \<and>
   fst (convert_audio env_ffmpeg_fails
          (snd (download_audio env_ffmpeg_fails
                 (run env_ffmpeg_fails [Join 1, Play 1 ''good''] (init Map.empty)) ''bad''))
          ytdl_out_mp3 1) = Inl Ffmpeg_error \<and>
   fst (play_audio env_ffmpeg_fails
          (run env_ffmpeg_fails [Join 1, Play 1 ''good''] (init Map.empty)) 1 ''bad'') = False \<and>
   heap (snd (play_audio env_ffmpeg_fails
          (run env_ffmpeg_fails [Join 1, Play 1 ''good''] (init Map.empty)) 1 ''bad''))
     = heap (run env_ffmpeg_fails [Join 1, Play 1 ''good''] (init Map.empty))"
proof -
  let ?a = "run env_fetch_fails [Join 1] (init Map.empty)"
  let ?b = "run env_ffmpeg_fails [Join 1, Play 1 ''good''] (init Map.empty)"
  have "group_calls ?a 1 = Some 0" by code_simp
  then have a1: "1 \<in> dom (group_calls ?a)" by (rule domI)
  have a2: "fst (download_audio env_fetch_fails ?a ''u'') = None" by code_simp
  have "group_calls ?b 1 = Some 0" by code_simp
  then have b1: "1 \<in> dom (group_calls ?b)" by (rule domI)
  have b2: "fst (download_audio env_ffmpeg_fails ?b ''bad'') = Some ytdl_out_mp3" by code_simp
  have b3: "fst (convert_audio env_ffmpeg_fails (snd (download_audio env_ffmpeg_fails ?b ''bad''))
              ytdl_out_mp3 1) = Inl Ffmpeg_error"
    by code_simp
  note ia = play_audio_failure [OF a1, of env_fetch_fails "''u''"]
  note ib = play_audio_failure [OF b1, of env_ffmpeg_fails "''bad''"]
  from ia a2 have ra: "play_audio env_fetch_fails ?a 1 ''u'' =
     (False, snd (download_audio env_fetch_fails ?a ''u''))"
    by blast
  from ib b2 b3 have "play_audio env_ffmpeg_fails ?b 1 ''bad'' =
     (False, snd (convert_audio env_ffmpeg_fails (snd (download_audio env_ffmpeg_fails ?b ''bad''))
              ytdl_out_mp3 1))"
    by blast
  then have rb: "fst (play_audio env_ffmpeg_fails ?b 1 ''bad'') = False"
    by simp
  with ib have rh: "heap (snd (play_audio env_ffmpeg_fails ?b 1 ''bad'')) = heap ?b"
    by blast
  show ?thesis
    apply (intro conjI)
           apply (rule a1)
          apply (rule a2)
         apply (rule ra)
        apply (rule b1)
       apply (rule b2)
      apply (rule b3)
     apply (rule rb)
    apply (rule rh)
    done
qed

subsection \<open>A play leaves the other chats alone\<close>


lemma files_convert_audio_other:
  "q \<noteq> inp \<Longrightarrow> q \<noteq> raw_path c \<Longrightarrow> files (snd (convert_audio e s inp c)) q = files s q"
  by (auto simp: convert_audio_def Let_def log_call_def os_remove_def remove_existing_output_eq
      split: option.splits ffmpeg_result.splits if_splits)

lemma heap_set_input_filename_other:
  "group_calls s c \<noteq> Some h \<Longrightarrow> heap (snd (set_input_filename e s c p)) h = heap s h"
  by (auto simp: set_input_filename_def log_call_def Let_def split: option.splits)

lemma play_audio_other_chat:
  assumes "c' \<noteq> c"
  shows "group_calls (snd (play_audio e s c source)) c' = group_calls s c'"
    and "files (snd (play_audio e s c source)) (raw_path c') = files s (raw_path c')"
    and "group_calls s c \<noteq> Some h \<Longrightarrow> heap (snd (play_audio e s c source)) h = heap s h"
proof -
  show "group_calls (snd (play_audio e s c source)) c' = group_calls s c'" by simp
  obtain a s1 where d: "download_audio e s source = (a, s1)"
    by (cases "download_audio e s source")
  then have f1: "files s1 (raw_path c') = files s (raw_path c')"
    and h1: "heap s1 = heap s" and g1: "group_calls s1 = group_calls s"
    using files_download_audio_raw [of e s source c'] heap_download_audio [of e s source]
      download_audio_group_calls [of e s source] by simp_all
  have ne: "raw_path c' \<noteq> raw_path c"
    using assms by (auto dest: raw_path_inj)
  have both: "files (snd (play_audio e s c source)) (raw_path c') = files s (raw_path c') \<and>
      (group_calls s c \<noteq> Some h \<longrightarrow> heap (snd (play_audio e s c source)) h = heap s h)"
  proof (cases "c \<in> dom (group_calls s)")
    case False
    then show ?thesis by (simp add: play_audio_def)
  next
    case True
    show ?thesis
    proof (cases a)
      case None
      with d True f1 h1 show ?thesis by (simp add: play_audio_def)
    next
      case (Some audio_file)
      with d have "fst (download_audio e s source) = Some audio_file" by simp
      then have af: "audio_file = ytdl_out_mp3"
        using download_audio_Some by blast
      obtain r s2 where cv: "convert_audio e s1 audio_file c = (r, s2)"
        by (cases "convert_audio e s1 audio_file c")
      have f2: "files s2 (raw_path c') = files s1 (raw_path c')"
        using files_convert_audio_other [of "raw_path c'" audio_file c e s1] cv ne af
          ytdl_out_mp3_not_raw [of c'] by simp
      have h2: "heap s2 = heap s1" and g2: "group_calls s2 = group_calls s1"
        using heap_convert_audio [of e s1 audio_file c]
          convert_audio_group_calls [of e s1 audio_file c] cv by simp_all
      show ?thesis
      proof (cases r)
        case (Inl err)
        with d True Some cv f1 f2 h1 h2 af show ?thesis
          by (simp add: play_audio_def ytdl_out_mp3_nonempty)
      next
        case (Inr raw_file)
        with d True Some cv af
        have "snd (play_audio e s c source) = snd (set_input_filename e s2 c raw_file)"
          by (simp add: play_audio_def ytdl_out_mp3_nonempty)
        with f1 f2 h1 h2 g1 g2 heap_set_input_filename_other [of s2 c h e raw_file]
        show ?thesis by simp
      qed
    qed
  qed
  from both show "files (snd (play_audio e s c source)) (raw_path c') = files s (raw_path c')"
    by simp
  from both show "group_calls s c \<noteq> Some h \<Longrightarrow> heap (snd (play_audio e s c source)) h = heap s h"
    by simp
qed

lemma registry_inj_init: "registry_inj (init fs)"
  by (simp add: registry_inj_def init_def)

lemma get_call_registry_inj:
  "handles_below s \<Longrightarrow> registry_inj s \<Longrightarrow> registry_inj (snd (get_call e s c))"
  unfolding registry_inj_def handles_below_def get_call_def log_call_def Let_def
  by (auto split: if_splits option.splits)

lemma registry_inj_cong:
  "registry_inj s \<Longrightarrow> group_calls s' = group_calls s \<Longrightarrow> registry_inj s'"
  by (simp add: registry_inj_def)

lemma join_registry_inj:
  assumes "handles_below s" and "registry_inj s"
  shows "registry_inj (snd (join_voice_chat e s c))"
proof -
  obtain r s1 where g: "get_call e s c = (r, s1)"
    by (cases "get_call e s c")
  with get_call_registry_inj [OF assms, of e c] have "registry_inj s1" by simp
  then have "registry_inj (log_call x s1)" for x
    by (simp add: registry_inj_def log_call_def)
  with g \<open>registry_inj s1\<close> show ?thesis
    by (auto simp: join_voice_chat_def Let_def split: sum.splits option.splits)
qed

lemma leave_registry_inj: "registry_inj s \<Longrightarrow> registry_inj (snd (leave_voice_chat e s c))"
  by (auto simp: registry_inj_def leave_voice_chat_def os_remove_def log_call_def Let_def
      split: option.splits if_splits)

lemma exec_registry_inj:
  "handles_below s \<Longrightarrow> registry_inj s \<Longrightarrow> registry_inj (exec e cmd s)"
  by (cases cmd)
     (auto simp: join_registry_inj leave_registry_inj stop_audio_def pause_audio_def
        resume_audio_def replay_audio_def mute_audio_def unmute_audio_def get_status_def Let_def
        elim: registry_inj_cong)

lemma run_registry_inj:
  "handles_below s \<Longrightarrow> registry_inj s \<Longrightarrow> registry_inj (run e cmds s)"
  by (induction cmds arbitrary: s) (simp_all add: exec_registry_inj exec_handles_below)

lemma reachable_registry_inj: "registry_inj (run e cmds (init fs))"
  by (intro run_registry_inj handles_below_init registry_inj_init)


lemma other_chat_untouched_by_play:
  assumes "s = run e cmds (init fs)" and "c' \<noteq> c" and "group_calls s c' = Some h'"
  shows "group_calls (snd (play_audio e s c source)) c' = Some h' \<and>
         heap (snd (play_audio e s c source)) h' = heap s h' \<and>
         files (snd (play_audio e s c source)) (raw_path c') = files s (raw_path c')"
proof -
  have "registry_inj s"
    unfolding assms(1) by (rule reachable_registry_inj)
  with assms(2,3) have "group_calls s c \<noteq> Some h'"
    by (auto simp: registry_inj_def)
  then have "heap (snd (play_audio e s c source)) h' = heap s h'"
    by (rule play_audio_other_chat(3) [OF assms(2)])
  moreover have "files (snd (play_audio e s c source)) (raw_path c') = files s (raw_path c')"
    by (rule play_audio_other_chat(2) [OF assms(2)])
  ultimately show ?thesis
    using assms(3) by simp
qed

subsection \<open>The transcode stage as a whole\<close>

lemma play_from_file_removes_input:
  assumes "fst (play_from_file e s c p) = True"
  shows "files (snd (play_from_file e s c p)) p = None"
proof -
  from assms have j: "c \<in> dom (group_calls s)"
    by (auto simp: play_from_file_def split: if_splits)
  obtain r s2 where cv: "convert_audio e s p c = (r, s2)"
    by (cases "convert_audio e s p c")
  show ?thesis
  proof (cases r)
    case (Inl err)
    with assms j cv show ?thesis by (simp add: play_from_file_def)
  next
    case (Inr raw_file)
    with cv have "fst (convert_audio e s p c) = Inr raw_file" by simp
    then have "files (snd (convert_audio e s p c)) p = None"
      by (rule convert_audio_success(4))
    with cv Inr j show ?thesis by (simp add: play_from_file_def)
  qed
qed

lemma play_audio_removes_download:
  assumes "fst (play_audio e s c source) = True"
  shows "files (snd (play_audio e s c source)) ytdl_out_mp3 = None"
proof -
  from assms have j: "c \<in> dom (group_calls s)"
    by (auto simp: play_audio_def split: if_splits)
  obtain a s1 where d: "download_audio e s source = (a, s1)"
    by (cases "download_audio e s source")
  show ?thesis
  proof (cases a)
    case None
    with assms j d show ?thesis by (simp add: play_audio_def)
  next
    case (Some audio_file)
    with d have "fst (download_audio e s source) = Some audio_file" by simp
    then have af: "audio_file = ytdl_out_mp3"
      using download_audio_Some by blast
    obtain r s2 where cv: "convert_audio e s1 ytdl_out_mp3 c = (r, s2)"
      by (cases "convert_audio e s1 ytdl_out_mp3 c")
    show ?thesis
    proof (cases r)
      case (Inl err)
      with assms j d Some af cv show ?thesis
        by (simp add: play_audio_def ytdl_out_mp3_nonempty)
    next
      case (Inr raw_file)
      with cv have "fst (convert_audio e s1 ytdl_out_mp3 c) = Inr raw_file" by simp
      then have "files (snd (convert_audio e s1 ytdl_out_mp3 c)) ytdl_out_mp3 = None"
        by (rule convert_audio_success(4))
      with cv Inr j d Some af show ?thesis
        by (simp add: play_audio_def ytdl_out_mp3_nonempty)
    qed
  qed
qed

lemma convert_audio_eq:
  "convert_audio e s inp c =
     (case ((files s)(raw_path c := None)) inp of
        None \<Rightarrow>
          (Inl Ffmpeg_error,
           s\<lparr>files := (files s)(raw_path c := None),
             trace := trace s @ [Ffmpeg_run (convert_args inp c)]\<rparr>)
      | Some b \<Rightarrow>
          (case ffmpeg e (trace s) ((files s)(raw_path c := None)) (convert_args inp c) of
             Ffmpeg_fail part \<Rightarrow>
               (Inl Ffmpeg_error,
                s\<lparr>files := (files s)(raw_path c := part),
                  trace := trace s @ [Ffmpeg_run (convert_args inp c)]\<rparr>)
           | Ffmpeg_done pcm \<Rightarrow>
               (Inr (raw_path c),
                s\<lparr>files := (files s)(raw_path c \<mapsto> pcm, inp := None),
                  trace := trace s @ [Ffmpeg_run (convert_args inp c)]\<rparr>)))"
  by (cases s)
     (auto simp: convert_audio_def remove_existing_output_eq os_remove_def log_call_def Let_def
        split: option.splits ffmpeg_result.splits if_splits)

lemma convert_audio_output:
  "files (snd (convert_audio e s inp c)) (raw_path c) =
     (case ((files s)(raw_path c := None)) inp of
        None \<Rightarrow> None
      | Some b \<Rightarrow>
          (case ffmpeg e (trace s) ((files s)(raw_path c := None)) (convert_args inp c) of
             Ffmpeg_done pcm \<Rightarrow> Some pcm
           | Ffmpeg_fail part \<Rightarrow> part))"
  by (auto simp: convert_audio_eq split: option.splits ffmpeg_result.splits)

lemma convert_audio_succeeds_iff:
  "(fst (convert_audio e s inp c) = Inr (raw_path c)) =
     (((files s)(raw_path c := None)) inp \<noteq> None \<and>
      (\<exists>pcm. ffmpeg e (trace s) ((files s)(raw_path c := None)) (convert_args inp c)
                = Ffmpeg_done pcm))"
  by (auto simp: convert_audio_eq split: option.splits ffmpeg_result.splits)

lemma convert_audio_failed_files:
  "fst (convert_audio e s inp c) = Inl err \<Longrightarrow> q \<noteq> raw_path c \<Longrightarrow>
     files (snd (convert_audio e s inp c)) q = files s q"
  by (auto simp: convert_audio_eq split: option.splits ffmpeg_result.splits if_splits)

text \<open>
  Claim C7. \<open>convert_audio\<close> runs ffmpeg once, with the fixed target format (raw signed 16-bit
  little-endian PCM, 2 channels, 48 kHz) and with the output path named after the chat id,
  a name that belongs to no other chat. The removal of an existing output file succeeds, and
  ffmpeg starts on files without one at the output path: whatever the outcome, the output
  path afterwards holds what this run of ffmpeg left there (the converted stream, a partial
  file, or nothing), never the artifact that was there before. The conversion succeeds
  exactly when the input exists and ffmpeg finishes; then the result is the output path and
  the input file, whatever its origin, is gone: the attachment handed to \<open>play_from_file\<close> as
  well as the download of \<open>play_audio\<close>. When it fails, the input file is kept. No file other
  than input and output changes, nor does the registry or any group-call object.
\<close>

theorem convert_audio_transcode:
  "trace (snd (convert_audio e s inp c)) =
     trace s @ [Ffmpeg_run \<lparr>input_file = inp, output_file = raw_path c, format = ''s16le'',
                            acodec = ''pcm_s16le'', ac = 2, ar = ''48k'',
                            overwrite_output = True\<rparr>] \<and>
   remove_existing_output s c = Inr (s\<lparr>files := (files s)(raw_path c := None)\<rparr>) \<and>
   (\<forall>c'. raw_path c' = raw_path c \<longrightarrow> c' = c) \<and>
   files (snd (convert_audio e s inp c)) (raw_path c) =
     (case ((files s)(raw_path c := None)) inp of
        None \<Rightarrow> None
      | Some b \<Rightarrow>
          (case ffmpeg e (trace s) ((files s)(raw_path c := None)) (convert_args inp c) of
             Ffmpeg_done pcm \<Rightarrow> Some pcm
           | Ffmpeg_fail part \<Rightarrow> part)) \<and>
   (fst (convert_audio e s inp c) = Inr (raw_path c)) =
     (((files s)(raw_path c := None)) inp \<noteq> None \<and>
      (\<exists>pcm. ffmpeg e (trace s) ((files s)(raw_path c := None)) (convert_args inp c)
                = Ffmpeg_done pcm)) \<and>
   (\<forall>out. fst (convert_audio e s inp c) = Inr out \<longrightarrow>
      out = raw_path c \<and> files s inp \<noteq> None \<and>
      files (snd (convert_audio e s inp c)) inp = None \<and>
      (\<exists>pcm. ffmpeg e (trace s) ((files s)(raw_path c := None)) (convert_args inp c)
                = Ffmpeg_done pcm \<and>
              files (snd (convert_audio e s inp c)) out = Some pcm)) \<and>
   (\<forall>err q. fst (convert_audio e s inp c) = Inl err \<and> q \<noteq> raw_path c \<longrightarrow>
      files (snd (convert_audio e s inp c)) q = files s q) \<and>
   (\<forall>q. q \<noteq> raw_path c \<and> q \<noteq> inp \<longrightarrow> files (snd (convert_audio e s inp c)) q = files s q) \<and>
   group_calls (snd (convert_audio e s inp c)) = group_calls s \<and>
   heap (snd (convert_audio e s inp c)) = heap s \<and>
   (fst (play_from_file e s c inp) = True \<longrightarrow> files (snd (play_from_file e s c inp)) inp = None) \<and>
   (fst (play_audio e s c source) = True \<longrightarrow>
      files (snd (play_audio e s c source)) ytdl_out_mp3 = None)"
proof -
  have "trace (snd (convert_audio e s inp c)) =
     trace s @ [Ffmpeg_run \<lparr>input_file = inp, output_file = raw_path c, format = ''s16le'',
                            acodec = ''pcm_s16le'', ac = 2, ar = ''48k'',
                            overwrite_output = True\<rparr>]"
    using convert_audio_trace [of e s inp c] by (simp add: convert_args_def)
  moreover have "remove_existing_output s c = Inr (s\<lparr>files := (files s)(raw_path c := None)\<rparr>)"
    by (rule remove_existing_output_eq)
  moreover have "\<forall>c'. raw_path c' = raw_path c \<longrightarrow> c' = c"
    by (auto dest: raw_path_inj)
  moreover note convert_audio_output [of e s inp c] convert_audio_succeeds_iff [of e s inp c]
  moreover have "\<forall>out. fst (convert_audio e s inp c) = Inr out \<longrightarrow>
      out = raw_path c \<and> files s inp \<noteq> None \<and>
      files (snd (convert_audio e s inp c)) inp = None \<and>
      (\<exists>pcm. ffmpeg e (trace s) ((files s)(raw_path c := None)) (convert_args inp c)
                = Ffmpeg_done pcm \<and>
              files (snd (convert_audio e s inp c)) out = Some pcm)"
    using convert_audio_success(1,3,4,5) [of e s inp c] by blast
  moreover have "\<forall>err q. fst (convert_audio e s inp c) = Inl err \<and> q \<noteq> raw_path c \<longrightarrow>
      files (snd (convert_audio e s inp c)) q = files s q"
    using convert_audio_failed_files [of e s inp c] by blast
  moreover have "\<forall>q. q \<noteq> raw_path c \<and> q \<noteq> inp \<longrightarrow>
      files (snd (convert_audio e s inp c)) q = files s q"
    using files_convert_audio_other [of _ inp c e s] by blast
  moreover have "group_calls (snd (convert_audio e s inp c)) = group_calls s"
    and "heap (snd (convert_audio e s inp c)) = heap s"
    by simp_all
  ultimately show ?thesis
    using play_from_file_removes_input [of e s c inp] play_audio_removes_download [of e s c source]
    by (intro conjI impI)
qed

theorem convert_audio_transcode_witness:
  "fst (convert_audio env_ok (init (Map.empty(''song.mp3'' \<mapsto> ''abc'', ''1.raw'' \<mapsto> ''old'')))
          ''song.mp3'' 1) = Inr ''1.raw'' \<and>
   files (snd (convert_audio env_ok (init (Map.empty(''song.mp3'' \<mapsto> ''abc'', ''1.raw'' \<mapsto> ''old'')))
          ''song.mp3'' 1)) ''song.mp3'' = None \<and>
   files (snd (convert_audio env_ok (init (Map.empty(''song.mp3'' \<mapsto> ''abc'', ''1.raw'' \<mapsto> ''old'')))
          ''song.mp3'' 1)) ''1.raw'' = Some ''pcm:abc'' \<and>
   fst (convert_audio env_ffmpeg_fails
          (init (Map.empty(''song.mp3'' \<mapsto> ''abc'', ''1.raw'' \<mapsto> ''old''))) ''song.mp3'' 1)
     = Inl Ffmpeg_error \<and>
   files (snd (convert_audio env_ffmpeg_fails
          (init (Map.empty(''song.mp3'' \<mapsto> ''abc'', ''1.raw'' \<mapsto> ''old''))) ''song.mp3'' 1))
     (raw_path 1) = Some ''partial'' \<and>
   files (snd (convert_audio env_ffmpeg_fails
          (init (Map.empty(''song.mp3'' \<mapsto> ''abc'', ''1.raw'' \<mapsto> ''old''))) ''song.mp3'' 1))
     ''song.mp3'' = Some ''abc'' \<and>
   fst (convert_audio env_ok (init (Map.empty(''song.mp3'' \<mapsto> ''abc''))) ''song.mp3'' (- 1001))
     = Inr ''-1001.raw'' \<and>
   files (snd (convert_audio env_ok (init (Map.empty(''song.mp3'' \<mapsto> ''abc''))) ''song.mp3'' (- 1001)))
     (raw_path (- 1001)) = Some ''pcm:abc'' \<and>
   fst (play_from_file env_ok (run env_ok [Join 1] (init (Map.empty(''song.mp3'' \<mapsto> ''abc''))))
          1 ''song.mp3'') = True \<and>
   files (snd (play_from_file env_ok (run env_ok [Join 1] (init (Map.empty(''song.mp3'' \<mapsto> ''abc''))))
          1 ''song.mp3'')) ''song.mp3'' = None \<and>
   fst (play_audio env_ok (run env_ok [Join 1] (init (Map.empty(''song.mp3'' \<mapsto> ''abc''))))
          1 ''u'') = True \<and>
   files (snd (play_audio env_ok (run env_ok [Join 1] (init (Map.empty(''song.mp3'' \<mapsto> ''abc''))))
          1 ''u'')) ytdl_out_mp3 = None"
proof -
  let ?s = "init (Map.empty(''song.mp3'' \<mapsto> ''abc'', ''1.raw'' \<mapsto> ''old''))"
  let ?n = "init (Map.empty(''song.mp3'' \<mapsto> ''abc''))"
  let ?j = "run env_ok [Join 1] (init (Map.empty(''song.mp3'' \<mapsto> ''abc'')))"
  have a: "fst (convert_audio env_ok ?s ''song.mp3'' 1) = Inr ''1.raw''"
    by code_simp
  have f: "ffmpeg env_ok (trace ?s) ((files ?s)(raw_path 1 := None))
             (convert_args ''song.mp3'' 1) = Ffmpeg_done ''pcm:abc''"
    by code_simp
  have g: "fst (convert_audio env_ffmpeg_fails ?s ''song.mp3'' 1) = Inl Ffmpeg_error"
    by code_simp
  have g1: "((files ?s)(raw_path 1 := None)) ''song.mp3'' = Some ''abc''"
    by code_simp
  have g2: "ffmpeg env_ffmpeg_fails (trace ?s) ((files ?s)(raw_path 1 := None))
             (convert_args ''song.mp3'' 1) = Ffmpeg_fail (Some ''partial'')"
    by code_simp
  have g3: "''song.mp3'' \<noteq> raw_path 1"
    by code_simp
  have g4: "files ?s ''song.mp3'' = Some ''abc''"
    by code_simp
  have n: "fst (convert_audio env_ok ?n ''song.mp3'' (- 1001)) = Inr ''-1001.raw''"
    by code_simp
  have n1: "((files ?n)(raw_path (- 1001) := None)) ''song.mp3'' = Some ''abc''"
    by code_simp
  have n2: "ffmpeg env_ok (trace ?n) ((files ?n)(raw_path (- 1001) := None))
             (convert_args ''song.mp3'' (- 1001)) = Ffmpeg_done ''pcm:abc''"
    by code_simp
  have b: "fst (play_from_file env_ok ?j 1 ''song.mp3'') = True"
    by code_simp
  have c: "fst (play_audio env_ok ?j 1 ''u'') = True"
    by code_simp
  note i1 = convert_audio_transcode [of env_ok ?s "''song.mp3''" 1 "''u''"]
  note i2 = convert_audio_transcode [of env_ok ?j "''song.mp3''" 1 "''u''"]
  note i3 = convert_audio_transcode [of env_ffmpeg_fails ?s "''song.mp3''" 1 "''u''"]
  note i4 = convert_audio_transcode [of env_ok ?n "''song.mp3''" "- 1001" "''u''"]
  from i1 a have r1: "files (snd (convert_audio env_ok ?s ''song.mp3'' 1)) ''song.mp3'' = None"
    by blast
  from i1 a obtain pcm where
    "ffmpeg env_ok (trace ?s) ((files ?s)(raw_path 1 := None)) (convert_args ''song.mp3'' 1)
       = Ffmpeg_done pcm"
    "files (snd (convert_audio env_ok ?s ''song.mp3'' 1)) ''1.raw'' = Some pcm"
    by blast
  with f have r2: "files (snd (convert_audio env_ok ?s ''song.mp3'' 1)) ''1.raw'' = Some ''pcm:abc''"
    by simp
  from i3 have "files (snd (convert_audio env_ffmpeg_fails ?s ''song.mp3'' 1)) (raw_path 1) =
     (case ((files ?s)(raw_path 1 := None)) ''song.mp3'' of
        None \<Rightarrow> None
      | Some b \<Rightarrow>
          (case ffmpeg env_ffmpeg_fails (trace ?s) ((files ?s)(raw_path 1 := None))
                  (convert_args ''song.mp3'' 1) of
             Ffmpeg_done pcm \<Rightarrow> Some pcm
           | Ffmpeg_fail part \<Rightarrow> part))"
    by (elim conjE)
  then have r5: "files (snd (convert_audio env_ffmpeg_fails ?s ''song.mp3'' 1)) (raw_path 1)
      = Some ''partial''"
    unfolding g1 g2 by simp
  from i3 g g3 have "files (snd (convert_audio env_ffmpeg_fails ?s ''song.mp3'' 1)) ''song.mp3''
      = files ?s ''song.mp3''"
    by blast
  with g4 have r6: "files (snd (convert_audio env_ffmpeg_fails ?s ''song.mp3'' 1)) ''song.mp3''
      = Some ''abc''"
    by simp
  from i4 have "files (snd (convert_audio env_ok ?n ''song.mp3'' (- 1001))) (raw_path (- 1001)) =
     (case ((files ?n)(raw_path (- 1001) := None)) ''song.mp3'' of
        None \<Rightarrow> None
      | Some b \<Rightarrow>
          (case ffmpeg env_ok (trace ?n) ((files ?n)(raw_path (- 1001) := None))
                  (convert_args ''song.mp3'' (- 1001)) of
             Ffmpeg_done pcm \<Rightarrow> Some pcm
           | Ffmpeg_fail part \<Rightarrow> part))"
    by (elim conjE)
  then have r7: "files (snd (convert_audio env_ok ?n ''song.mp3'' (- 1001))) (raw_path (- 1001))
      = Some ''pcm:abc''"
    unfolding n1 n2 by simp
  from i2 b have r3: "files (snd (play_from_file env_ok ?j 1 ''song.mp3'')) ''song.mp3'' = None"
    by blast
  from i2 c have r4: "files (snd (play_audio env_ok ?j 1 ''u'')) ytdl_out_mp3 = None"
    by blast
  show ?thesis
    apply (intro conjI)
               apply (rule a)
              apply (rule r1)
             apply (rule r2)
            apply (rule g)
           apply (rule r5)
          apply (rule r6)
         apply (rule n)
        apply (rule r7)
       apply (rule b)
      apply (rule r3)
     apply (rule c)
    apply (rule r4)
    done
qed


subsection \<open>Overlapping play commands on one chat\<close>

lemma play_handler_stages:
  assumes "c \<in> dom (group_calls s)" and "is_audio_reply (Some r)" and "msg_file r = Some f"
  shows "snd (play_handler e s c source (Some r)) =
         run_stages e [Fetch_attachment f, Transcode_handoff c (media_path f)] s"
  using assms
  by (simp add: play_handler_def download_media_def split: prod.splits)

lemma play_handler_url_stage:
  assumes "c \<in> dom (group_calls s)" and "\<not> is_audio_reply reply"
  shows "snd (play_handler e s c source reply) = run_stages e [Fetch_transcode_handoff c source] s"
  using assms
  by (simp add: play_handler_def split: prod.splits)
















end
